theory Spec2Isabelle
  imports Complex_Main "HOL-Library.Monad_Syntax"
begin

section \<open>Canonical enumerations (package enums) and the NVD vocabularies (package dto)\<close>

text \<open>
  The canonical enumerations of the shared package. \<open>AccessType\<close> and \<open>ComplexityType\<close>
  carry one more constructor for a value that is none of the named constants: the
  switch of \<open>calculateLikelihoodSimple\<close> has a default branch for it. The constant
  \<open>AccesTypePhysical\<close> is spelt as in the source.
\<close>

datatype AccessType =
    AccessTypeUnknown | AccessTypeNetwork | AccessTypeAdjacentNetwork
  | AccessTypeLocal | AccesTypePhysical | AccessTypeOther

datatype ComplexityType =
    ComplexityTypeUnknown | ComplexityTypeLow | ComplexityTypeMedium
  | ComplexityTypeHigh | ComplexityTypeOther

datatype PrivilegesRequiredType =
    PrivilegesRequiredUnknown | PrivilegesRequiredNone
  | PrivilegesRequiredLow | PrivilegesRequiredHigh

datatype ImpactType = ImpactTypeUnknown | ImpactTypeNone | ImpactTypeLow | ImpactTypeHigh

datatype SeverityType =
    SeverityTypeUnknown | SeverityTypeNone | SeverityTypeLow
  | SeverityTypeMedium | SeverityTypeHigh | SeverityTypeCritical

datatype ExploitabilityType =
    ExploitabilityTypeUnknown | ExploitabilityTypeUnproven | ExploitabilityTypeProofOfConcept
  | ExploitabilityTypeFunctional | ExploitabilityTypeHigh | ExploitabilityTypeUndefined

datatype LikelyhoodType =
    LikelyhoodTypeUnknown | LikelyhoodTypeLow | LikelyhoodTypeMedium
  | LikelyhoodTypeHigh | LikelyhoodTypeVeryHigh

text \<open>
  The vocabularies of the NVD payload are string types with named constants; the code
  only compares a value with those constants in a switch. Each is a datatype of the
  constants the switches name, and one constructor \<open>..Other\<close> for every other string.
\<close>

datatype dto_AttackVectorType =
    dto_AttackVectorTypeNetwork | dto_AttackVectorTypeAdjacentNetwork
  | dto_AttackVectorTypeLocal | dto_AttackVectorTypePhysical | dto_AttackVectorTypeOther

datatype dto_AccessVectorTypeV2 =
    dto_AccessVectorTypeV2Network | dto_AccessVectorTypeV2AdjacentNetwork
  | dto_AccessVectorTypeV2Local | dto_AccessVectorTypeV2Other

datatype dto_AttackComplexityType =
    dto_AttackComplexityTypeLow | dto_AttackComplexityTypeHigh | dto_AttackComplexityTypeOther

datatype dto_AccessComplexityTypeV2 =
    dto_AccessComplexityTypeV2High | dto_AccessComplexityTypeV2Medium
  | dto_AccessComplexityTypeV2Low | dto_AccessComplexityTypeV2Other

datatype dto_PrivilegesRequiredType =
    dto_PrivilegesRequiredTypeHigh | dto_PrivilegesRequiredTypeLow
  | dto_PrivilegesRequiredTypeNone | dto_PrivilegesRequiredTypeOther

datatype dto_CiaType = dto_CiaTypeHigh | dto_CiaTypeLow | dto_CiaTypeNone | dto_CiaTypeOther

datatype dto_CiaTypeV2 =
    dto_CiaTypeV2Complete | dto_CiaTypeV2Partial | dto_CiaTypeV2None | dto_CiaTypeV2Other

datatype dto_SeverityType =
    dto_SeverityTypeCritical | dto_SeverityTypeHigh | dto_SeverityTypeMedium
  | dto_SeverityTypeLow | dto_SeverityTypeNone | dto_SeverityTypeOther

datatype dto_ExploitCodeMaturityType =
    dto_ExploitCodeMaturityTypeHigh | dto_ExploitCodeMaturityTypeFunctional
  | dto_ExploitCodeMaturityTypeProofOfConcept | dto_ExploitCodeMaturityTypeUnproven
  | dto_ExploitCodeMaturityTypeNotDefined | dto_ExploitCodeMaturityTypeOther

datatype dto_ExploitabilityTypeV2 =
    dto_ExploitabilityTypeV2Unproven | dto_ExploitabilityTypeV2ProofOfConcept
  | dto_ExploitabilityTypeV2Functional | dto_ExploitabilityTypeV2High
  | dto_ExploitabilityTypeV2NotDefined | dto_ExploitabilityTypeV2Other

section \<open>The metrics payload\<close>

text \<open>
  Scores are \<open>float64\<close> values that the code copies and never computes with; they are
  reals here. The records hold the fields the code reads. A pointer field that may be
  nil is an \<open>option\<close>; a slice of which the code takes the length and the first element
  is a list.
\<close>

type_synonym float64 = real

record CvssDataV31 =
  BaseScore_V31 :: float64
  BaseSeverity_V31 :: dto_SeverityType
  AttackVector_V31 :: dto_AttackVectorType
  AttackComplexity_V31 :: dto_AttackComplexityType
  PrivilegesRequired_V31 :: dto_PrivilegesRequiredType
  IntegrityImpact_V31 :: dto_CiaType
  AvailabilityImpact_V31 :: dto_CiaType
  ExploitCodeMaturity_V31 :: "dto_ExploitCodeMaturityType option"

record CvssMetricV31 =
  CvssData_V31 :: CvssDataV31
  ExploitabilityScore_V31 :: float64
  ImpactScore_V31 :: float64

record CvssDataV30 =
  BaseScore_V30 :: float64
  BaseSeverity_V30 :: dto_SeverityType
  AttackVector_V30 :: dto_AttackVectorType
  AttackComplexity_V30 :: dto_AttackComplexityType
  PrivilegesRequired_V30 :: dto_PrivilegesRequiredType
  IntegrityImpact_V30 :: dto_CiaType
  AvailabilityImpact_V30 :: dto_CiaType
  ExploitCodeMaturity_V30 :: "dto_ExploitCodeMaturityType option"

record CvssMetricV30 =
  CvssData_V30 :: CvssDataV30
  ExploitabilityScore_V30 :: float64
  ImpactScore_V30 :: float64

record CvssDataV2 =
  BaseScore_V2 :: float64
  AccessVector_V2 :: dto_AccessVectorTypeV2
  AccessComplexity_V2 :: dto_AccessComplexityTypeV2
  IntegrityImpact_V2 :: dto_CiaTypeV2
  AvailabilityImpact_V2 :: dto_CiaTypeV2
  Exploitability_V2 :: "dto_ExploitabilityTypeV2 option"

record CvssMetricV2 =
  CvssData_V2 :: CvssDataV2
  ExploitabilityScore_V2 :: float64
  ImpactScore_V2 :: float64

record Metrics =
  CvssMetricV31 :: "CvssMetricV31 list"
  CvssMetricV30 :: "CvssMetricV30 list"
  CvssMetricV2 :: "CvssMetricV2 list"

record Exploit =
  Score :: float64
  Exploitability :: ExploitabilityType

section \<open>Mapping functions\<close>

fun mapAccessTypeV31AndV30 :: "dto_AttackVectorType \<Rightarrow> AccessType" where
  "mapAccessTypeV31AndV30 dto_AttackVectorTypeNetwork = AccessTypeNetwork"
| "mapAccessTypeV31AndV30 dto_AttackVectorTypeAdjacentNetwork = AccessTypeAdjacentNetwork"
| "mapAccessTypeV31AndV30 dto_AttackVectorTypeLocal = AccessTypeLocal"
| "mapAccessTypeV31AndV30 dto_AttackVectorTypePhysical = AccesTypePhysical"
| "mapAccessTypeV31AndV30 _ = AccessTypeUnknown"

fun mapAccessTypeV2 :: "dto_AccessVectorTypeV2 \<Rightarrow> AccessType" where
  "mapAccessTypeV2 dto_AccessVectorTypeV2Network = AccessTypeNetwork"
| "mapAccessTypeV2 dto_AccessVectorTypeV2AdjacentNetwork = AccessTypeAdjacentNetwork"
| "mapAccessTypeV2 dto_AccessVectorTypeV2Local = AccessTypeLocal"
| "mapAccessTypeV2 _ = AccessTypeUnknown"

fun mapComplexityTypeV31AndV30 :: "dto_AttackComplexityType \<Rightarrow> ComplexityType" where
  "mapComplexityTypeV31AndV30 dto_AttackComplexityTypeLow = ComplexityTypeLow"
| "mapComplexityTypeV31AndV30 dto_AttackComplexityTypeHigh = ComplexityTypeHigh"
| "mapComplexityTypeV31AndV30 _ = ComplexityTypeUnknown"

fun mapComplexityTypeV2 :: "dto_AccessComplexityTypeV2 \<Rightarrow> ComplexityType" where
  "mapComplexityTypeV2 dto_AccessComplexityTypeV2High = ComplexityTypeHigh"
| "mapComplexityTypeV2 dto_AccessComplexityTypeV2Medium = ComplexityTypeMedium"
| "mapComplexityTypeV2 dto_AccessComplexityTypeV2Low = ComplexityTypeLow"
| "mapComplexityTypeV2 _ = ComplexityTypeUnknown"

fun mapPrivilegesRequiredTypeV31AndV30 ::
  "dto_PrivilegesRequiredType \<Rightarrow> PrivilegesRequiredType" where
  "mapPrivilegesRequiredTypeV31AndV30 dto_PrivilegesRequiredTypeHigh = PrivilegesRequiredHigh"
| "mapPrivilegesRequiredTypeV31AndV30 dto_PrivilegesRequiredTypeLow = PrivilegesRequiredLow"
| "mapPrivilegesRequiredTypeV31AndV30 dto_PrivilegesRequiredTypeNone = PrivilegesRequiredNone"
| "mapPrivilegesRequiredTypeV31AndV30 _ = PrivilegesRequiredUnknown"

fun mapImpactTypeV31AndV30 :: "dto_CiaType \<Rightarrow> ImpactType" where
  "mapImpactTypeV31AndV30 dto_CiaTypeHigh = ImpactTypeHigh"
| "mapImpactTypeV31AndV30 dto_CiaTypeLow = ImpactTypeLow"
| "mapImpactTypeV31AndV30 dto_CiaTypeNone = ImpactTypeNone"
| "mapImpactTypeV31AndV30 _ = ImpactTypeUnknown"

fun mapImpactTypeV2 :: "dto_CiaTypeV2 \<Rightarrow> ImpactType" where
  "mapImpactTypeV2 dto_CiaTypeV2Complete = ImpactTypeHigh"
| "mapImpactTypeV2 dto_CiaTypeV2Partial = ImpactTypeLow"
| "mapImpactTypeV2 dto_CiaTypeV2None = ImpactTypeNone"
| "mapImpactTypeV2 _ = ImpactTypeUnknown"

fun mapSeverityType :: "dto_SeverityType \<Rightarrow> SeverityType" where
  "mapSeverityType dto_SeverityTypeCritical = SeverityTypeCritical"
| "mapSeverityType dto_SeverityTypeHigh = SeverityTypeHigh"
| "mapSeverityType dto_SeverityTypeMedium = SeverityTypeMedium"
| "mapSeverityType dto_SeverityTypeLow = SeverityTypeLow"
| "mapSeverityType dto_SeverityTypeNone = SeverityTypeNone"
| "mapSeverityType _ = SeverityTypeUnknown"

fun mapExploitabilityV31AndV30 ::
  "dto_ExploitCodeMaturityType option \<Rightarrow> ExploitabilityType" where
  "mapExploitabilityV31AndV30 None = ExploitabilityTypeUnknown"
| "mapExploitabilityV31AndV30 (Some dto_ExploitCodeMaturityTypeHigh) = ExploitabilityTypeHigh"
| "mapExploitabilityV31AndV30 (Some dto_ExploitCodeMaturityTypeFunctional) =
     ExploitabilityTypeFunctional"
| "mapExploitabilityV31AndV30 (Some dto_ExploitCodeMaturityTypeProofOfConcept) =
     ExploitabilityTypeProofOfConcept"
| "mapExploitabilityV31AndV30 (Some dto_ExploitCodeMaturityTypeUnproven) =
     ExploitabilityTypeUnproven"
| "mapExploitabilityV31AndV30 (Some dto_ExploitCodeMaturityTypeNotDefined) =
     ExploitabilityTypeUndefined"
| "mapExploitabilityV31AndV30 (Some _) = ExploitabilityTypeUnknown"

fun mapExploitabilityV2 :: "dto_ExploitabilityTypeV2 option \<Rightarrow> ExploitabilityType" where
  "mapExploitabilityV2 None = ExploitabilityTypeUnknown"
| "mapExploitabilityV2 (Some dto_ExploitabilityTypeV2Unproven) = ExploitabilityTypeUnproven"
| "mapExploitabilityV2 (Some dto_ExploitabilityTypeV2ProofOfConcept) =
     ExploitabilityTypeProofOfConcept"
| "mapExploitabilityV2 (Some dto_ExploitabilityTypeV2Functional) = ExploitabilityTypeFunctional"
| "mapExploitabilityV2 (Some dto_ExploitabilityTypeV2High) = ExploitabilityTypeHigh"
| "mapExploitabilityV2 (Some dto_ExploitabilityTypeV2NotDefined) = ExploitabilityTypeUndefined"
| "mapExploitabilityV2 (Some _) = ExploitabilityTypeUnknown"

section \<open>extractMetrics\<close>

text \<open>
  The nine named results of \<open>extractMetrics\<close>, as one record. The function first sets
  every result to its default, returns them when the payload pointer is nil, and
  otherwise overwrites them from the first entry of the first non-empty list. The
  severity banding \<open>tools.MapCVSS\<close> of the shared package is a parameter.
\<close>

record ExtractedMetrics =
  baseCVSSScore :: float64
  baseSeverity :: SeverityType
  impactScore :: float64
  access :: AccessType
  complexity :: ComplexityType
  privilegesRequired :: PrivilegesRequiredType
  integrityImpact :: ImpactType
  availabilityImpact :: ImpactType
  exploitability :: Exploit

definition defaultMetrics :: ExtractedMetrics where
  "defaultMetrics =
     \<lparr> baseCVSSScore = 0, baseSeverity = SeverityTypeUnknown, impactScore = 0,
       access = AccessTypeUnknown, complexity = ComplexityTypeUnknown,
       privilegesRequired = PrivilegesRequiredUnknown,
       integrityImpact = ImpactTypeUnknown, availabilityImpact = ImpactTypeUnknown,
       exploitability = \<lparr> Score = 0, Exploitability = ExploitabilityTypeUnknown \<rparr> \<rparr>"

definition extractMetrics ::
  "(float64 \<Rightarrow> SeverityType) \<Rightarrow> Metrics option \<Rightarrow> ExtractedMetrics" where
  "extractMetrics MapCVSS metrics =
     (case metrics of
        None \<Rightarrow> defaultMetrics
      | Some m \<Rightarrow>
          (case CvssMetricV31 m of
             e31 # _ \<Rightarrow>
               (let cvssDataV31 = CvssData_V31 e31 in
                defaultMetrics
                  \<lparr> baseCVSSScore := BaseScore_V31 cvssDataV31,
                    impactScore := ImpactScore_V31 e31,
                    baseSeverity := mapSeverityType (BaseSeverity_V31 cvssDataV31),
                    access := mapAccessTypeV31AndV30 (AttackVector_V31 cvssDataV31),
                    complexity := mapComplexityTypeV31AndV30 (AttackComplexity_V31 cvssDataV31),
                    privilegesRequired :=
                      mapPrivilegesRequiredTypeV31AndV30 (PrivilegesRequired_V31 cvssDataV31),
                    integrityImpact := mapImpactTypeV31AndV30 (IntegrityImpact_V31 cvssDataV31),
                    availabilityImpact :=
                      mapImpactTypeV31AndV30 (AvailabilityImpact_V31 cvssDataV31),
                    exploitability :=
                      \<lparr> Score = ExploitabilityScore_V31 e31,
                        Exploitability =
                          mapExploitabilityV31AndV30 (ExploitCodeMaturity_V31 cvssDataV31) \<rparr> \<rparr>)
           | [] \<Rightarrow>
          (case CvssMetricV30 m of
             e30 # _ \<Rightarrow>
               (let cvssDataV30 = CvssData_V30 e30 in
                defaultMetrics
                  \<lparr> baseCVSSScore := BaseScore_V30 cvssDataV30,
                    impactScore := ImpactScore_V30 e30,
                    baseSeverity := mapSeverityType (BaseSeverity_V30 cvssDataV30),
                    access := mapAccessTypeV31AndV30 (AttackVector_V30 cvssDataV30),
                    complexity := mapComplexityTypeV31AndV30 (AttackComplexity_V30 cvssDataV30),
                    privilegesRequired :=
                      mapPrivilegesRequiredTypeV31AndV30 (PrivilegesRequired_V30 cvssDataV30),
                    integrityImpact := mapImpactTypeV31AndV30 (IntegrityImpact_V30 cvssDataV30),
                    availabilityImpact :=
                      mapImpactTypeV31AndV30 (AvailabilityImpact_V30 cvssDataV30),
                    exploitability :=
                      \<lparr> Score = ExploitabilityScore_V30 e30,
                        Exploitability =
                          mapExploitabilityV31AndV30 (ExploitCodeMaturity_V30 cvssDataV30) \<rparr> \<rparr>)
           | [] \<Rightarrow>
          (case CvssMetricV2 m of
             e2 # _ \<Rightarrow>
               (let cvssDataV2 = CvssData_V2 e2 in
                defaultMetrics
                  \<lparr> baseCVSSScore := BaseScore_V2 cvssDataV2,
                    impactScore := ImpactScore_V2 e2,
                    baseSeverity := MapCVSS (BaseScore_V2 cvssDataV2),
                    access := mapAccessTypeV2 (AccessVector_V2 cvssDataV2),
                    complexity := mapComplexityTypeV2 (AccessComplexity_V2 cvssDataV2),
                    integrityImpact := mapImpactTypeV2 (IntegrityImpact_V2 cvssDataV2),
                    availabilityImpact := mapImpactTypeV2 (AvailabilityImpact_V2 cvssDataV2),
                    exploitability :=
                      \<lparr> Score = ExploitabilityScore_V2 e2,
                        Exploitability = mapExploitabilityV2 (Exploitability_V2 cvssDataV2) \<rparr> \<rparr>)
           | [] \<Rightarrow> defaultMetrics))))"

section \<open>calculateLikelihoodSimple\<close>

text \<open>
  The source takes the whole vulnerability by value and reads its \<open>Access\<close> and
  \<open>Complexity\<close> fields; \<open>likelihoodOf\<close> is the switch on those two values.
\<close>

fun likelihoodOf :: "AccessType \<Rightarrow> ComplexityType \<Rightarrow> LikelyhoodType" where
  "likelihoodOf AccessTypeNetwork c =
     (if c = ComplexityTypeLow then LikelyhoodTypeVeryHigh else LikelyhoodTypeHigh)"
| "likelihoodOf AccessTypeAdjacentNetwork c = LikelyhoodTypeMedium"
| "likelihoodOf AccessTypeUnknown c = LikelyhoodTypeUnknown"
| "likelihoodOf _ c = LikelyhoodTypeLow"

section \<open>Errors\<close>

text \<open>
  Errors are values. The four sentinel errors of the package are constructors;
  \<open>LibError\<close> is an error value made by a library (the HTTP transport, the JSON decoder,
  the time parser, the request constructor), which is never one of the sentinels.
  \<open>Errorf\<close> is \<open>fmt.Errorf\<close> with no \<open>%w\<close> verb, \<open>ErrorfW\<close> with one and \<open>ErrorfWW\<close> with
  two: the format string, the other arguments in order, and the wrapped errors.
\<close>

datatype fmtarg = AStr string | AInt int

datatype err =
    ErrInvalidCPE
  | ErrNVDServiceUnavailable
  | ErrNVDAPIStatus
  | ErrNVDDecode
  | LibError string
  | Errorf string "fmtarg list"
  | ErrorfW string "fmtarg list" err
  | ErrorfWW string "fmtarg list" err err

text \<open>
  \<open>errors.Is\<close>: the error itself or one it wraps, at any depth, is the target. The
  program only ever asks for a sentinel.
\<close>

fun errors_Is :: "err \<Rightarrow> err \<Rightarrow> bool" where
  "errors_Is (ErrorfW f a w) t = (ErrorfW f a w = t \<or> errors_Is w t)"
| "errors_Is (ErrorfWW f a w1 w2) t =
     (ErrorfWW f a w1 w2 = t \<or> errors_Is w1 t \<or> errors_Is w2 t)"
| "errors_Is e t = (e = t)"

section \<open>The string functions of package strings\<close>

text \<open>
  Go strings are byte sequences, as HOL strings are. \<open>strings_Split\<close> is
  \<open>strings.Split\<close> for a separator of one byte, which is how the code calls it: the
  empty string splits into one empty token.
\<close>

definition quote :: char where
  "quote = CHR 0x27"

definition strings_HasPrefix :: "string \<Rightarrow> string \<Rightarrow> bool" where
  "strings_HasPrefix s p = (take (length p) s = p)"

definition strings_TrimPrefix :: "string \<Rightarrow> string \<Rightarrow> string" where
  "strings_TrimPrefix s p = (if strings_HasPrefix s p then drop (length p) s else s)"

fun strings_Split :: "string \<Rightarrow> char \<Rightarrow> string list" where
  "strings_Split [] c = [[]]"
| "strings_Split (x # xs) c =
     (if x = c then [] # strings_Split xs c
      else (case strings_Split xs c of
              t # ts \<Rightarrow> (x # t) # ts
            | [] \<Rightarrow> [[x]]))"

fun strings_Join :: "string list \<Rightarrow> string \<Rightarrow> string" where
  "strings_Join [] sep = []"
| "strings_Join [x] sep = x"
| "strings_Join (x # y # ys) sep = x @ sep @ strings_Join (y # ys) sep"

section \<open>isValidCPE\<close>

definition componentsToCheck :: "(nat \<times> string) list" where
  "componentsToCheck = [(2, ''part''), (3, ''vendor''), (4, ''product''), (5, ''version'')]"

text \<open>
  The loop over \<open>componentsToCheck\<close>. It runs after the length check, so every index
  is in range. The message is formatted with the offending token, as in the source.
\<close>

fun checkComponents :: "string list \<Rightarrow> (nat \<times> string) list \<Rightarrow> err option" where
  "checkComponents parts [] = None"
| "checkComponents parts ((index, name) # rest) =
     (if parts ! index = ''*''
      then Some (ErrorfW (''%w: %s component must not be '' @ [quote] @ ''*'' @ [quote])
                   [AStr (parts ! index)] ErrInvalidCPE)
      else checkComponents parts rest)"

definition isValidCPE :: "string \<Rightarrow> err option" where
  "isValidCPE cpe =
     (let parts = strings_Split cpe (CHR '':'') in
      if length parts \<noteq> 13
      then Some (ErrorfW ''%w: must have 13 colon-separated parts, got %d''
                   [AInt (int (length parts))] ErrInvalidCPE)
      else if parts ! 0 \<noteq> ''cpe''
      then Some (ErrorfW (''%w: must start with '' @ [quote] @ ''cpe'' @ [quote]
                          @ '', got '' @ [quote] @ ''%s'' @ [quote])
                   [AStr (parts ! 0)] ErrInvalidCPE)
      else if parts ! 1 \<noteq> ''2.3''
      then Some (ErrorfW (''%w: must have '' @ [quote] @ ''2.3'' @ [quote]
                          @ '' as the second part (CPE Version), got ''
                          @ [quote] @ ''%s'' @ [quote])
                   [AStr (parts ! 1)] ErrInvalidCPE)
      else checkComponents parts componentsToCheck)"

section \<open>standardizeCPE\<close>

text \<open>The padding loop: \<open>n\<close> times, append the wildcard.\<close>

fun appendWildcards :: "nat \<Rightarrow> string list \<Rightarrow> string list" where
  "appendWildcards 0 parts = parts"
| "appendWildcards (Suc n) parts = appendWildcards n (parts @ [''*''])"

definition standardizeCPE :: "string \<Rightarrow> err + string" where
  "standardizeCPE cpe =
     (if \<not> strings_HasPrefix cpe ''cpe:/''
      then Inl (Errorf (''CPE does not start with '' @ [quote] @ ''cpe:/'' @ [quote] @ '': %s'')
                  [AStr cpe])
      else
        (let cpeWithoutPrefix = strings_TrimPrefix cpe ''cpe:/'';
             parts = strings_Split cpeWithoutPrefix (CHR '':'')
         in if length parts < 4
            then Inl (Errorf
                   ''CPE is too short, needs at least part, vendor, product and version: %s''
                   [AStr cpe])
            else
              (let parts1 = parts[0 := strings_TrimPrefix (parts ! 0) ''/''];
                   paddingNeeded = 11 - int (length parts1);
                   parts2 = (if paddingNeeded > 0 then appendWildcards (nat paddingNeeded) parts1
                             else if paddingNeeded < 0 then take 11 parts1
                             else parts1)
               in Inr (''cpe:2.3:'' @ strings_Join parts2 '':''))))"

section \<open>The NVD record and the vulnerability record\<close>

text \<open>
  A Go slice is nil or holds a sequence; the two differ for a caller (and in JSON), so
  the slices the code builds keep the difference. The slices it only ranges over are
  lists.
\<close>

datatype 'a slice = NilSlice | Slice "'a list"

fun elems :: "'a slice \<Rightarrow> 'a list" where
  "elems NilSlice = []"
| "elems (Slice xs) = xs"

definition append_slice :: "'a slice \<Rightarrow> 'a \<Rightarrow> 'a slice" where
  "append_slice s x = Slice (elems s @ [x])"

record dto_Description =
  Lang :: string
  Value :: string

record dto_Reference =
  URL :: string

record dto_VendorComment =
  Organization_dto :: string
  Comment_dto :: string
  LastModified_dto :: string

record dto_CveDetail =
  ID_dto :: string
  SourceIdentifier :: string
  Descriptions :: "dto_Description list"
  References_dto :: "dto_Reference list"
  Metrics_dto :: "Metrics option"
  Published_dto :: string
  LastModified_cve :: string
  VendorComments_dto :: "dto_VendorComment list"

record dto_Vulnerability =
  Cve :: dto_CveDetail

record 'time VendorComment =
  Organization :: string
  Comment :: string
  LastModified :: 'time

text \<open>
  The fields of \<open>tools.Vulnerability\<close> that the code writes. The type of a parsed time
  and the type of the risk score belong to libraries and are type parameters.
\<close>

record ('time, 'risk) Vulnerability =
  ID :: string
  Type :: string
  Description :: string
  References :: "string slice"
  BaseCVSSScore :: float64
  BaseSeverity :: SeverityType
  ImpactScore :: float64
  Access :: AccessType
  Complexity :: ComplexityType
  PrivilegesRequired :: PrivilegesRequiredType
  IntegrityImpact :: ImpactType
  AvailabilityImpact :: ImpactType
  Exploit :: Exploit
  Published :: 'time
  LastUpdated :: 'time
  Likelihood :: LikelyhoodType
  RiskScore :: 'risk
  VendorComments :: "'time VendorComment slice"

definition calculateLikelihoodSimple :: "('time, 'risk) Vulnerability \<Rightarrow> LikelyhoodType" where
  "calculateLikelihoodSimple vuln = likelihoodOf (Access vuln) (Complexity vuln)"

fun getEnglishDescription :: "dto_Description list \<Rightarrow> string" where
  "getEnglishDescription [] = []"
| "getEnglishDescription (desc # rest) =
     (if Lang desc = ''en'' then Value desc else getEnglishDescription rest)"

definition getReferences :: "dto_Reference list \<Rightarrow> string slice" where
  "getReferences vulnReferences =
     foldl (\<lambda>refs ref. append_slice refs (URL ref)) NilSlice vulnReferences"

section \<open>Timestamps\<close>

text \<open>
  \<open>time.Parse\<close> belongs to the standard library: it is the parameter \<open>time_Parse\<close>, from
  a layout and a value to the parsed time or the message of its error. The two layouts
  are the source's.
\<close>

definition parseNvdDateTime ::
  "(string \<Rightarrow> string \<Rightarrow> string + 'time) \<Rightarrow> string \<Rightarrow> err + 'time" where
  "parseNvdDateTime time_Parse dateStr =
     (let customLayout = ''2006-01-02T15:04:05.000'' in
      case time_Parse customLayout dateStr of
        Inl e \<Rightarrow> Inl (ErrorfW ''failed to parse date using custom layout: %w'' [] (LibError e))
      | Inr parsedTime \<Rightarrow> Inr parsedTime)"

definition parseNvdVendorCommentDateTime ::
  "(string \<Rightarrow> string \<Rightarrow> string + 'time) \<Rightarrow> string \<Rightarrow> err + 'time" where
  "parseNvdVendorCommentDateTime time_Parse dateStr =
     (let customLayout = ''2006-01-02T15:04:05'' in
      case time_Parse customLayout dateStr of
        Inl e \<Rightarrow> Inl (ErrorfW ''failed to parse date using custom layout: %w'' [] (LibError e))
      | Inr parsedTime \<Rightarrow> Inr parsedTime)"

section \<open>parseVendorComments\<close>

text \<open>
  The loop appends to \<open>resultComments\<close>, which starts as an allocated slice of length
  0; a comment whose timestamp does not parse is logged and skipped.
\<close>

fun parseVendorComments_loop ::
  "(string \<Rightarrow> string \<Rightarrow> string + 'time) \<Rightarrow> dto_VendorComment list
   \<Rightarrow> 'time VendorComment list \<Rightarrow> 'time VendorComment list" where
  "parseVendorComments_loop time_Parse [] resultComments = resultComments"
| "parseVendorComments_loop time_Parse (comment # rest) resultComments =
     (case parseNvdVendorCommentDateTime time_Parse (LastModified_dto comment) of
        Inl e \<Rightarrow> parseVendorComments_loop time_Parse rest resultComments
      | Inr lastModifiedTime \<Rightarrow>
          parseVendorComments_loop time_Parse rest
            (resultComments @
               [\<lparr> Organization = Organization_dto comment,
                   Comment = Comment_dto comment,
                   LastModified = lastModifiedTime \<rparr>]))"

definition parseVendorComments ::
  "(string \<Rightarrow> string \<Rightarrow> string + 'time) \<Rightarrow> dto_VendorComment list
   \<Rightarrow> 'time VendorComment slice" where
  "parseVendorComments time_Parse nvdComments =
     Slice (parseVendorComments_loop time_Parse nvdComments [])"

section \<open>enrichVulnerabilityWithNvdData\<close>

text \<open>
  The target is a pointer that may be nil: an \<open>option\<close>. The function writes through
  the pointer, so the model returns the error (or \<open>None\<close> for nil) together with the
  target as the caller finds it afterwards. The assignments are in the source's order;
  each return hands back the target as written so far. The risk formula
  \<open>enums.CalculateRiskScore\<close> of the shared package is a parameter.
\<close>

definition enrichVulnerabilityWithNvdData ::
  "(string \<Rightarrow> string \<Rightarrow> string + 'time) \<Rightarrow> (float64 \<Rightarrow> SeverityType)
   \<Rightarrow> (LikelyhoodType \<Rightarrow> ImpactType \<Rightarrow> ImpactType \<Rightarrow> 'risk)
   \<Rightarrow> ('time, 'risk) Vulnerability option \<Rightarrow> dto_Vulnerability
   \<Rightarrow> err option \<times> ('time, 'risk) Vulnerability option" where
  "enrichVulnerabilityWithNvdData time_Parse MapCVSS CalculateRiskScore vuln nvdVuln =
     (case vuln of
        None \<Rightarrow> (Some (Errorf ''expected a non-nil vulnerability'' []), None)
      | Some v0 \<Rightarrow>
          (let cve = Cve nvdVuln;
               v1 = v0\<lparr> ID := ID_dto cve,
                        Type := SourceIdentifier cve,
                        Description := getEnglishDescription (Descriptions cve),
                        References := getReferences (References_dto cve) \<rparr>;
               m = extractMetrics MapCVSS (Metrics_dto cve);
               v2 = v1\<lparr> BaseCVSSScore := baseCVSSScore m,
                        BaseSeverity := baseSeverity m,
                        ImpactScore := impactScore m,
                        Access := access m,
                        Complexity := complexity m,
                        PrivilegesRequired := privilegesRequired m,
                        IntegrityImpact := integrityImpact m,
                        AvailabilityImpact := availabilityImpact m,
                        Exploit := exploitability m \<rparr>
           in case parseNvdDateTime time_Parse (Published_dto cve) of
                Inl e \<Rightarrow> (Some (ErrorfW ''failed to parse publishedTime: %w'' [] e), Some v2)
              | Inr publishedTime \<Rightarrow>
                  (let v3 = v2\<lparr> Published := publishedTime \<rparr>
                   in case parseNvdDateTime time_Parse (LastModified_cve cve) of
                        Inl e \<Rightarrow>
                          (Some (ErrorfW ''failed to parse updatedTime: %w'' [] e), Some v3)
                      | Inr updatedTime \<Rightarrow>
                          (let v4 = v3\<lparr> LastUpdated := updatedTime \<rparr>;
                               v5 = v4\<lparr> Likelihood := calculateLikelihoodSimple v4 \<rparr>;
                               v6 = v5\<lparr> RiskScore :=
                                          CalculateRiskScore (Likelihood v5)
                                            (IntegrityImpact v5) (AvailabilityImpact v5) \<rparr>;
                               v7 = v6\<lparr> VendorComments :=
                                          parseVendorComments time_Parse
                                            (VendorComments_dto cve) \<rparr>
                           in (None, Some v7)))))"

section \<open>The fetcher\<close>

text \<open>
  What lies outside the program is the record \<open>env\<close>: the query escaping of package
  url, the request constructor (the message of its error, or \<open>None\<close> when the request
  is built), and the transport with the server behind it, which answers the
  \<open>k\<close>-th call made through the client. A reply is a transport error or a response:
  the status code, the status text, and what the JSON decoder makes of the body (the
  message of its error, or the decoded value).

  What the program does to the outside is the record \<open>world\<close>: the number of calls made
  through the client so far, and the durations slept so far, in order. Log lines are
  left out.
\<close>

datatype 'resp reply =
    TransportError string
  | Response int string "string + 'resp"

text \<open>The status code of a reply, when the reply is a response.\<close>

fun replyStatus :: "'resp reply \<Rightarrow> int option" where
  "replyStatus (TransportError e) = None"
| "replyStatus (Response StatusCode Status body) = Some StatusCode"

record 'resp env =
  QueryEscape :: "string \<Rightarrow> string"
  NewRequest :: "string \<Rightarrow> string option"
  Do :: "nat \<Rightarrow> string \<Rightarrow> 'resp reply"

record world =
  calls :: nat
  slept :: "int list"

definition maxRetries :: nat where
  "maxRetries = 3"

text \<open>Durations are in nanoseconds, as \<open>time.Duration\<close> is.\<close>

definition Second :: int where
  "Second = 1000000000"

definition initialRetryDelay :: int where
  "initialRetryDelay = 5 * Second"

definition StatusServiceUnavailable :: int where
  "StatusServiceUnavailable = 503"

definition StatusOK :: int where
  "StatusOK = 200"

definition attemptFetch ::
  "'resp env \<Rightarrow> string \<Rightarrow> world \<Rightarrow> (err + 'resp) \<times> world" where
  "attemptFetch env apiURL w =
     (case NewRequest env apiURL of
        Some e \<Rightarrow> (Inl (ErrorfW ''failed to create NVD API request: %w'' [] (LibError e)), w)
      | None \<Rightarrow>
          (let w' = w\<lparr> calls := calls w + 1 \<rparr> in
           case Do env (calls w) apiURL of
             TransportError e \<Rightarrow>
               (Inl (ErrorfW ''failed NVD API request: %w'' [] (LibError e)), w')
           | Response StatusCode Status body \<Rightarrow>
               if StatusCode = StatusServiceUnavailable then (Inl ErrNVDServiceUnavailable, w')
               else if StatusCode \<noteq> StatusOK
               then (Inl (ErrorfW ''%w: %d %s'' [AInt StatusCode, AStr Status] ErrNVDAPIStatus),
                     w')
               else (case body of
                       Inl e \<Rightarrow> (Inl (ErrorfWW ''%w: %w'' [] ErrNVDDecode (LibError e)), w')
                     | Inr nvdResponse \<Rightarrow> (Inr nvdResponse, w'))))"

definition shouldRetry :: "err \<Rightarrow> bool" where
  "shouldRetry e = errors_Is e ErrNVDServiceUnavailable"

text \<open>
  The jitter is the product of the delay with the float \<open>0.2\<close>, truncated to an
  integer; for the delays of the attempts \<open>0\<close> to \<open>maxRetries\<close> that is a fifth of the
  delay. It is always added.
\<close>

definition calculateRetryDelay :: "nat \<Rightarrow> int" where
  "calculateRetryDelay attempt =
     (let delay = initialRetryDelay * 2 ^ attempt;
          jitter = delay div 5;
          delay' = delay + jitter
      in if delay' > 15 * Second then 15 * Second else delay')"

text \<open>
  The loop of \<open>fetchNvdDataByCPE\<close>, from the attempt counter, the last error (nil before
  the first attempt) and the world. After a retriable error it sleeps and goes round
  again; when the counter passes \<open>maxRetries\<close> it leaves the loop and returns the
  wrapped last error.
\<close>

function fetchLoop ::
  "'resp env \<Rightarrow> string \<Rightarrow> string \<Rightarrow> nat \<Rightarrow> err option \<Rightarrow> world
   \<Rightarrow> (err + 'resp) \<times> world" where
  "fetchLoop env cpe apiURL attempt lastErr w =
     (if attempt \<le> maxRetries then
        (case attemptFetch env apiURL w of
           (Inr nvdResponse, w') \<Rightarrow> (Inr nvdResponse, w')
         | (Inl e, w') \<Rightarrow>
             if \<not> shouldRetry e
             then (Inl (ErrorfW ''non-retriable error for CPE %s: %w'' [AStr cpe] e), w')
             else fetchLoop env cpe apiURL (attempt + 1) (Some e)
                    (w'\<lparr> slept := slept w' @ [calculateRetryDelay attempt] \<rparr>))
      else
        (case lastErr of
           Some e \<Rightarrow>
             (Inl (ErrorfW ''failed NVD API request after %d retries: %w''
                     [AInt (int maxRetries)] e), w)
         | None \<Rightarrow>
             (Inl (Errorf ''failed NVD API request after %d retries: %w''
                     [AInt (int maxRetries)]), w)))"
  by pat_completeness auto
termination
  by (relation "measure (\<lambda>(env, cpe, apiURL, attempt, lastErr, w). maxRetries + 1 - attempt)")
     auto

declare fetchLoop.simps [simp del]

definition buildURL :: "'resp env \<Rightarrow> string \<Rightarrow> string \<Rightarrow> string" where
  "buildURL env cpe baseNvdAPIURL =
     baseNvdAPIURL @ ''?'' @ (''cpeName='' @ QueryEscape env cpe)"

definition fetchNvdDataByCPE ::
  "'resp env \<Rightarrow> string \<Rightarrow> string \<Rightarrow> world \<Rightarrow> (err + 'resp) \<times> world" where
  "fetchNvdDataByCPE env cpe baseNvdAPIURL w =
     fetchLoop env cpe (buildURL env cpe baseNvdAPIURL) 0 None w"

section \<open>The time parser of the standard library, for the vendor-comment layout\<close>

text \<open>
  \<open>time.Parse\<close> is library code. For the theorems on vendor comments it is followed
  through for the one layout \<open>2006-01-02T15:04:05\<close>, whose chunks are: a year of four
  digits, \<open>-\<close>, a month of two digits, \<open>-\<close>, a day of two digits, \<open>T\<close>, an hour,
  \<open>:\<close>, a minute of two digits, \<open>:\<close>, a second of two digits. The helper functions
  keep the library's names. A parsed time is its fields; the location is UTC.
\<close>

record Time =
  tYear :: int
  tMonth :: int
  tDay :: int
  tHour :: int
  tMin :: int
  tSec :: int
  tNsec :: int

definition digitChar :: "char \<Rightarrow> bool" where
  "digitChar c = (c \<in> set ''0123456789'')"

definition digitVal :: "char \<Rightarrow> int" where
  "digitVal c = int (of_char c) - 48"

definition isDigit :: "string \<Rightarrow> nat \<Rightarrow> bool" where
  "isDigit s i = (i < length s \<and> digitChar (s ! i))"

text \<open>
  The separator of a fractional second: a period or, since Go 1.17, a comma (the package
  imports \<open>log/slog\<close>, which needs Go 1.21).
\<close>

definition commaOrPeriod :: "char \<Rightarrow> bool" where
  "commaOrPeriod c = (c = CHR ''.'' \<or> c = CHR '','')"

text \<open>The number that a string of digits denotes.\<close>

definition decimal :: "string \<Rightarrow> int" where
  "decimal ds = foldl (\<lambda>x c. x * 10 + digitVal c) 0 ds"

text \<open>
  \<open>getnum\<close> reads one or two digits; with \<open>fixed\<close> it insists on two.
\<close>

definition getnum :: "string \<Rightarrow> bool \<Rightarrow> (int \<times> string) option" where
  "getnum s fixed =
     (if \<not> isDigit s 0 then None
      else if \<not> isDigit s 1
      then (if fixed then None else Some (digitVal (s ! 0), drop 1 s))
      else Some (digitVal (s ! 0) * 10 + digitVal (s ! 1), drop 2 s))"

text \<open>\<open>skip\<close> removes a literal prefix (the prefixes of this layout hold no space).\<close>

fun skip :: "string \<Rightarrow> string \<Rightarrow> string option" where
  "skip v [] = Some v"
| "skip [] (p # prefix) = None"
| "skip (c # v) (p # prefix) = (if c \<noteq> p then None else skip v prefix)"

text \<open>
  \<open>leadingInt\<close> reads the leading digits (its overflow check cannot fire on the at
  most nine digits it is given here); \<open>atoi\<close> allows a sign and wants nothing left.
\<close>

fun leadingInt :: "string \<Rightarrow> int \<Rightarrow> int \<times> string" where
  "leadingInt [] x = (x, [])"
| "leadingInt (c # s) x =
     (if digitChar c then leadingInt s (x * 10 + digitVal c) else (x, c # s))"

definition atoi :: "string \<Rightarrow> int option" where
  "atoi s =
     (let neg = (s \<noteq> [] \<and> hd s = CHR ''-'');
          s1 = (if s \<noteq> [] \<and> (hd s = CHR ''-'' \<or> hd s = CHR ''+'') then tl s else s)
      in case leadingInt s1 0 of
           (q, rem) \<Rightarrow> if rem \<noteq> [] then None else Some (if neg then - q else q))"

definition parseNanoseconds :: "string \<Rightarrow> nat \<Rightarrow> int option" where
  "parseNanoseconds v nbytes =
     (if \<not> commaOrPeriod (v ! 0) then None
      else
        (let v1 = (if nbytes > 10 then take 10 v else v);
             nbytes1 = (if nbytes > 10 then 10 else nbytes)
         in case atoi (take (nbytes1 - 1) (drop 1 v1)) of
              None \<Rightarrow> None
            | Some ns \<Rightarrow> if ns < 0 then None else Some (ns * 10 ^ (10 - nbytes1))))"

definition isLeap :: "int \<Rightarrow> bool" where
  "isLeap year = (year mod 4 = 0 \<and> (year mod 100 \<noteq> 0 \<or> year mod 400 = 0))"

text \<open>\<open>daysIn\<close> is called with a month from 1 to 12.\<close>

definition daysIn :: "int \<Rightarrow> int \<Rightarrow> int" where
  "daysIn m year =
     (if m = 2 \<and> isLeap year then 29
      else [31, 28, 31, 30, 31, 30, 31, 31, 30, 31, 30, 31] ! nat (m - 1))"

definition inRange :: "bool \<Rightarrow> unit option" where
  "inRange b = (if b then Some () else None)"

text \<open>
  The chunk of the year: at least four bytes, the first a digit, and the first four
  an integer.
\<close>

definition getLongYear :: "string \<Rightarrow> (int \<times> string) option" where
  "getLongYear v =
     (if length v < 4 \<or> \<not> isDigit v 0 then None
      else map_option (\<lambda>year. (year, drop 4 v)) (atoi (take 4 v)))"

text \<open>
  After the seconds: when the layout has no fractional second and the input goes on
  with a comma or period and a digit, all the digits that follow are read as the
  fraction of the second.
\<close>

definition getFraction :: "string \<Rightarrow> (int \<times> string) option" where
  "getFraction v =
     (if length v \<ge> 2 \<and> commaOrPeriod (v ! 0) \<and> isDigit v 1
      then (let n = 2 + length (takeWhile digitChar (drop 2 v))
            in map_option (\<lambda>nsec. (nsec, drop n v)) (parseNanoseconds v n))
      else Some (0, v))"

text \<open>
  The parse: chunk by chunk, each range checked where the library checks it; then no
  text may be left, and the day must exist in its month. \<open>None\<close> is the error.
\<close>

definition time_Parse_seconds :: "string \<Rightarrow> Time option" where
  "time_Parse_seconds v0 =
     do {
       (year, v1) \<leftarrow> getLongYear v0;
       v2 \<leftarrow> skip v1 ''-'';
       (month, v3) \<leftarrow> getnum v2 True;
       _ \<leftarrow> inRange (\<not> (month \<le> 0 \<or> 12 < month));
       v4 \<leftarrow> skip v3 ''-'';
       (day, v5) \<leftarrow> getnum v4 True;
       v6 \<leftarrow> skip v5 ''T'';
       (hour, v7) \<leftarrow> getnum v6 False;
       _ \<leftarrow> inRange (\<not> (hour < 0 \<or> 24 \<le> hour));
       v8 \<leftarrow> skip v7 '':'';
       (minute, v9) \<leftarrow> getnum v8 True;
       _ \<leftarrow> inRange (\<not> (minute < 0 \<or> 60 \<le> minute));
       v10 \<leftarrow> skip v9 '':'';
       (sec, v11) \<leftarrow> getnum v10 True;
       _ \<leftarrow> inRange (\<not> (sec < 0 \<or> 60 \<le> sec));
       (nsec, v12) \<leftarrow> getFraction v11;
       _ \<leftarrow> inRange (length v12 = 0);
       _ \<leftarrow> inRange (\<not> (day < 1 \<or> day > daysIn month year));
       Some \<lparr> tYear = year, tMonth = month, tDay = day, tHour = hour, tMin = minute,
              tSec = sec, tNsec = nsec \<rparr>
     }"

text \<open>
  The pattern of the specification, \<open>YYYY-MM-DDTHH:MM:SS\<close> with no fractional second:
  nineteen bytes, digits and separators in their places.
\<close>

fun strictPattern :: "string \<Rightarrow> bool" where
  "strictPattern [y1, y2, y3, y4, a, m1, m2, b, d1, d2, t, h1, h2, c, n1, n2, d, s1, s2] =
     (digitChar y1 \<and> digitChar y2 \<and> digitChar y3 \<and> digitChar y4 \<and> a = CHR ''-''
      \<and> digitChar m1 \<and> digitChar m2 \<and> b = CHR ''-''
      \<and> digitChar d1 \<and> digitChar d2 \<and> t = CHR ''T''
      \<and> digitChar h1 \<and> digitChar h2 \<and> c = CHR '':''
      \<and> digitChar n1 \<and> digitChar n2 \<and> d = CHR '':''
      \<and> digitChar s1 \<and> digitChar s2)"
| "strictPattern _ = False"

text \<open>The value of a result, without the message of its error.\<close>

fun resultOf :: "'e + 'a \<Rightarrow> 'a option" where
  "resultOf (Inl e) = None"
| "resultOf (Inr x) = Some x"

text \<open>
  The parser as the program reaches it, for the layout of the vendor comments; no other
  layout is asked of it where it is used below.
\<close>

definition time_Parse_vendorLayout :: "string \<Rightarrow> string \<Rightarrow> string + Time" where
  "time_Parse_vendorLayout layout v =
     (if layout = ''2006-01-02T15:04:05''
      then (case time_Parse_seconds v of
              None \<Rightarrow> Inl ''parsing time: cannot parse''
            | Some t \<Rightarrow> Inr t)
      else Inl ''layout not followed through'')"

section \<open>Concrete inputs\<close>

text \<open>
  The inputs at which the theorems below are instantiated: the metric entries of the
  package's own tests, a severity banding and a risk formula standing for the two
  library functions, a time parser that accepts two fixed timestamps, and servers
  given by their replies.
\<close>

definition mockV31 :: CvssMetricV31 where
  "mockV31 =
     \<lparr> CvssData_V31 =
         \<lparr> BaseScore_V31 = 7.5, BaseSeverity_V31 = dto_SeverityTypeHigh,
           AttackVector_V31 = dto_AttackVectorTypeNetwork,
           AttackComplexity_V31 = dto_AttackComplexityTypeLow,
           PrivilegesRequired_V31 = dto_PrivilegesRequiredTypeNone,
           IntegrityImpact_V31 = dto_CiaTypeHigh, AvailabilityImpact_V31 = dto_CiaTypeNone,
           ExploitCodeMaturity_V31 = Some dto_ExploitCodeMaturityTypeFunctional \<rparr>,
       ExploitabilityScore_V31 = 3.9, ImpactScore_V31 = 5.9 \<rparr>"

definition mockV30 :: CvssMetricV30 where
  "mockV30 =
     \<lparr> CvssData_V30 =
         \<lparr> BaseScore_V30 = 6.8, BaseSeverity_V30 = dto_SeverityTypeMedium,
           AttackVector_V30 = dto_AttackVectorTypeNetwork,
           AttackComplexity_V30 = dto_AttackComplexityTypeLow,
           PrivilegesRequired_V30 = dto_PrivilegesRequiredTypeNone,
           IntegrityImpact_V30 = dto_CiaTypeLow, AvailabilityImpact_V30 = dto_CiaTypeLow,
           ExploitCodeMaturity_V30 = None \<rparr>,
       ExploitabilityScore_V30 = 2.8, ImpactScore_V30 = 3.9 \<rparr>"

definition mockV2 :: CvssMetricV2 where
  "mockV2 =
     \<lparr> CvssData_V2 =
         \<lparr> BaseScore_V2 = 5.0, AccessVector_V2 = dto_AccessVectorTypeV2Network,
           AccessComplexity_V2 = dto_AccessComplexityTypeV2Low,
           IntegrityImpact_V2 = dto_CiaTypeV2None, AvailabilityImpact_V2 = dto_CiaTypeV2None,
           Exploitability_V2 = None \<rparr>,
       ExploitabilityScore_V2 = 10.0, ImpactScore_V2 = 2.9 \<rparr>"

definition exampleMapCVSS :: "float64 \<Rightarrow> SeverityType" where
  "exampleMapCVSS s =
     (if s = 0 then SeverityTypeNone else if s < 4 then SeverityTypeLow
      else if s < 7 then SeverityTypeMedium else if s < 9 then SeverityTypeHigh
      else SeverityTypeCritical)"

definition exampleRiskScore :: "LikelyhoodType \<Rightarrow> ImpactType \<Rightarrow> ImpactType \<Rightarrow> nat" where
  "exampleRiskScore l i a = (if l = LikelyhoodTypeVeryHigh then 9 else 1)"

definition exampleParse :: "string \<Rightarrow> string \<Rightarrow> string + int" where
  "exampleParse layout v =
     (if layout = ''2006-01-02T15:04:05'' \<and> v = ''2008-12-18T00:00:00'' then Inr 1229558400
      else if layout = ''2006-01-02T15:04:05.000'' \<and> v = ''2024-11-21T02:09:48.080''
      then Inr 1732154988
      else Inl ''cannot parse'')"

definition exampleVuln :: "(int, nat) Vulnerability" where
  "exampleVuln =
     \<lparr> ID = ''scan-1'', Type = ''scanner'', Description = ''found by the scanner'',
       References = NilSlice, BaseCVSSScore = 0, BaseSeverity = SeverityTypeUnknown,
       ImpactScore = 0, Access = AccessTypeUnknown, Complexity = ComplexityTypeUnknown,
       PrivilegesRequired = PrivilegesRequiredUnknown, IntegrityImpact = ImpactTypeUnknown,
       AvailabilityImpact = ImpactTypeUnknown,
       Exploit = \<lparr> Score = 0, Exploitability = ExploitabilityTypeUnknown \<rparr>,
       Published = 0, LastUpdated = 0, Likelihood = LikelyhoodTypeUnknown, RiskScore = 0,
       VendorComments = NilSlice \<rparr>"

definition mockNvdVulnerabilityWithV31 :: dto_Vulnerability where
  "mockNvdVulnerabilityWithV31 =
     \<lparr> Cve =
         \<lparr> ID_dto = ''CVE-TEST-V31'', SourceIdentifier = ''TestSource'',
           Descriptions = [\<lparr> Lang = ''en'', Value = ''Test Description v3.1'' \<rparr>],
           References_dto = [\<lparr> URL = ''http://example.com/ref1'' \<rparr>],
           Metrics_dto =
             Some \<lparr> CvssMetricV31 = [mockV31], CvssMetricV30 = [], CvssMetricV2 = [] \<rparr>,
           Published_dto = ''2024-11-21T02:09:48.080'',
           LastModified_cve = ''2024-11-21T02:09:48.080'',
           VendorComments_dto = [] \<rparr> \<rparr>"

definition mockBadPublished :: dto_Vulnerability where
  "mockBadPublished =
     mockNvdVulnerabilityWithV31
       \<lparr> Cve := (Cve mockNvdVulnerabilityWithV31) \<lparr> Published_dto := ''2024-11-21'' \<rparr> \<rparr>"

definition mockBadLastModified :: dto_Vulnerability where
  "mockBadLastModified =
     mockNvdVulnerabilityWithV31
       \<lparr> Cve := (Cve mockNvdVulnerabilityWithV31) \<lparr> LastModified_cve := ''yesterday'' \<rparr> \<rparr>"

definition mockComments :: "dto_VendorComment list" where
  "mockComments =
     [\<lparr> Organization_dto = ''Red Hat'', Comment_dto = ''Not vulnerable.'',
        LastModified_dto = ''2008-12-18T00:00:00'' \<rparr>,
      \<lparr> Organization_dto = ''Blue Hat'', Comment_dto = ''Not vulnerable.'',
        LastModified_dto = ''2nd of May 2022 at 15:30:45'' \<rparr>,
      \<lparr> Organization_dto = ''Green Hat'', Comment_dto = ''Fixed.'',
        LastModified_dto = ''2008-12-18T00:00:00'' \<rparr>]"

text \<open>
  A server that answers every call with 503, and the server of the package's retry
  test, which answers 503 to the first \<open>maxRetries\<close> calls and then 200 with a body that
  decodes (to the number of results, here).
\<close>

definition always503 :: "nat env" where
  "always503 =
     \<lparr> QueryEscape = (\<lambda>s. s), NewRequest = (\<lambda>u. None),
       Do = (\<lambda>k u. Response 503 ''503 Service Unavailable'' (Inl ''invalid character'')) \<rparr>"

definition thenOK :: "nat env" where
  "thenOK =
     \<lparr> QueryEscape = (\<lambda>s. s), NewRequest = (\<lambda>u. None),
       Do = (\<lambda>k u. if k < maxRetries
                    then Response 503 ''503 Service Unavailable'' (Inl ''invalid character'')
                    else Response 200 ''200 OK'' (Inr 7)) \<rparr>"

definition replies :: "nat reply list \<Rightarrow> nat env" where
  "replies rs =
     \<lparr> QueryEscape = (\<lambda>s. s), NewRequest = (\<lambda>u. None),
       Do = (\<lambda>k u. if k < length rs then rs ! k else Response 200 ''200 OK'' (Inr 7)) \<rparr>"

definition world0 :: world where
  "world0 = \<lparr> calls = 0, slept = [] \<rparr>"

text \<open>A vendor comment whose timestamp carries a fractional second.\<close>

definition mockFractionComment :: dto_VendorComment where
  "mockFractionComment =
     \<lparr> Organization_dto = ''Red Hat'', Comment_dto = ''Not vulnerable.'',
       LastModified_dto = ''2008-12-18T00:00:00.500'' \<rparr>"

section \<open>Metric extraction\<close>

text \<open>
  C4. \<open>extractMetrics\<close> is a total function of the payload (it has no error result). On
  a nil payload, and on a payload whose three lists are empty, every result is its
  default: the scores 0 and every enumeration Unknown. Otherwise the first non-empty
  list in the order 3.1, 3.0, 2.0 decides, and only its first entry: each result is the
  value mapped from that entry, whatever the rest of the list and the later lists hold.
  In particular, when the 3.1 list is non-empty, every result comes from the first 3.1
  entry, also when the 2.0 list is non-empty. From a 2.0 entry the severity is the
  banding of the base score and the privileges stay Unknown.
\<close>

theorem extractMetrics_precedence:
  "extractMetrics MapCVSS None =
     \<lparr> baseCVSSScore = 0, baseSeverity = SeverityTypeUnknown, impactScore = 0,
       access = AccessTypeUnknown, complexity = ComplexityTypeUnknown,
       privilegesRequired = PrivilegesRequiredUnknown,
       integrityImpact = ImpactTypeUnknown, availabilityImpact = ImpactTypeUnknown,
       exploitability = \<lparr> Score = 0, Exploitability = ExploitabilityTypeUnknown \<rparr> \<rparr>
   \<and> (CvssMetricV31 m = [] \<and> CvssMetricV30 m = [] \<and> CvssMetricV2 m = []
        \<longrightarrow> extractMetrics MapCVSS (Some m) =
            \<lparr> baseCVSSScore = 0, baseSeverity = SeverityTypeUnknown, impactScore = 0,
              access = AccessTypeUnknown, complexity = ComplexityTypeUnknown,
              privilegesRequired = PrivilegesRequiredUnknown,
              integrityImpact = ImpactTypeUnknown, availabilityImpact = ImpactTypeUnknown,
              exploitability = \<lparr> Score = 0, Exploitability = ExploitabilityTypeUnknown \<rparr> \<rparr>)
   \<and> (\<forall>e es. CvssMetricV31 m = e # es
        \<longrightarrow> extractMetrics MapCVSS (Some m) =
            \<lparr> baseCVSSScore = BaseScore_V31 (CvssData_V31 e),
              baseSeverity = mapSeverityType (BaseSeverity_V31 (CvssData_V31 e)),
              impactScore = ImpactScore_V31 e,
              access = mapAccessTypeV31AndV30 (AttackVector_V31 (CvssData_V31 e)),
              complexity = mapComplexityTypeV31AndV30 (AttackComplexity_V31 (CvssData_V31 e)),
              privilegesRequired =
                mapPrivilegesRequiredTypeV31AndV30 (PrivilegesRequired_V31 (CvssData_V31 e)),
              integrityImpact = mapImpactTypeV31AndV30 (IntegrityImpact_V31 (CvssData_V31 e)),
              availabilityImpact =
                mapImpactTypeV31AndV30 (AvailabilityImpact_V31 (CvssData_V31 e)),
              exploitability =
                \<lparr> Score = ExploitabilityScore_V31 e,
                  Exploitability =
                    mapExploitabilityV31AndV30 (ExploitCodeMaturity_V31 (CvssData_V31 e)) \<rparr> \<rparr>)
   \<and> (\<forall>e es. CvssMetricV31 m = [] \<and> CvssMetricV30 m = e # es
        \<longrightarrow> extractMetrics MapCVSS (Some m) =
            \<lparr> baseCVSSScore = BaseScore_V30 (CvssData_V30 e),
              baseSeverity = mapSeverityType (BaseSeverity_V30 (CvssData_V30 e)),
              impactScore = ImpactScore_V30 e,
              access = mapAccessTypeV31AndV30 (AttackVector_V30 (CvssData_V30 e)),
              complexity = mapComplexityTypeV31AndV30 (AttackComplexity_V30 (CvssData_V30 e)),
              privilegesRequired =
                mapPrivilegesRequiredTypeV31AndV30 (PrivilegesRequired_V30 (CvssData_V30 e)),
              integrityImpact = mapImpactTypeV31AndV30 (IntegrityImpact_V30 (CvssData_V30 e)),
              availabilityImpact =
                mapImpactTypeV31AndV30 (AvailabilityImpact_V30 (CvssData_V30 e)),
              exploitability =
                \<lparr> Score = ExploitabilityScore_V30 e,
                  Exploitability =
                    mapExploitabilityV31AndV30 (ExploitCodeMaturity_V30 (CvssData_V30 e)) \<rparr> \<rparr>)
   \<and> (\<forall>e es. CvssMetricV31 m = [] \<and> CvssMetricV30 m = [] \<and> CvssMetricV2 m = e # es
        \<longrightarrow> extractMetrics MapCVSS (Some m) =
            \<lparr> baseCVSSScore = BaseScore_V2 (CvssData_V2 e),
              baseSeverity = MapCVSS (BaseScore_V2 (CvssData_V2 e)),
              impactScore = ImpactScore_V2 e,
              access = mapAccessTypeV2 (AccessVector_V2 (CvssData_V2 e)),
              complexity = mapComplexityTypeV2 (AccessComplexity_V2 (CvssData_V2 e)),
              privilegesRequired = PrivilegesRequiredUnknown,
              integrityImpact = mapImpactTypeV2 (IntegrityImpact_V2 (CvssData_V2 e)),
              availabilityImpact = mapImpactTypeV2 (AvailabilityImpact_V2 (CvssData_V2 e)),
              exploitability =
                \<lparr> Score = ExploitabilityScore_V2 e,
                  Exploitability = mapExploitabilityV2 (Exploitability_V2 (CvssData_V2 e)) \<rparr> \<rparr>)"
  by (simp add: extractMetrics_def defaultMetrics_def Let_def)

theorem extractMetrics_precedence_witness:
  "extractMetrics exampleMapCVSS
     (Some \<lparr> CvssMetricV31 = [], CvssMetricV30 = [], CvssMetricV2 = [] \<rparr>) =
     \<lparr> baseCVSSScore = 0, baseSeverity = SeverityTypeUnknown, impactScore = 0,
       access = AccessTypeUnknown, complexity = ComplexityTypeUnknown,
       privilegesRequired = PrivilegesRequiredUnknown,
       integrityImpact = ImpactTypeUnknown, availabilityImpact = ImpactTypeUnknown,
       exploitability = \<lparr> Score = 0, Exploitability = ExploitabilityTypeUnknown \<rparr> \<rparr>
   \<and> extractMetrics exampleMapCVSS
       (Some \<lparr> CvssMetricV31 = [mockV31, mockV31\<lparr> ImpactScore_V31 := 1 \<rparr>],
               CvssMetricV30 = [mockV30], CvssMetricV2 = [mockV2] \<rparr>) =
       \<lparr> baseCVSSScore = 7.5, baseSeverity = SeverityTypeHigh, impactScore = 5.9,
         access = AccessTypeNetwork, complexity = ComplexityTypeLow,
         privilegesRequired = PrivilegesRequiredNone, integrityImpact = ImpactTypeHigh,
         availabilityImpact = ImpactTypeNone,
         exploitability = \<lparr> Score = 3.9, Exploitability = ExploitabilityTypeFunctional \<rparr> \<rparr>
   \<and> extractMetrics exampleMapCVSS
       (Some \<lparr> CvssMetricV31 = [], CvssMetricV30 = [mockV30], CvssMetricV2 = [mockV2] \<rparr>) =
       \<lparr> baseCVSSScore = 6.8, baseSeverity = SeverityTypeMedium, impactScore = 3.9,
         access = AccessTypeNetwork, complexity = ComplexityTypeLow,
         privilegesRequired = PrivilegesRequiredNone, integrityImpact = ImpactTypeLow,
         availabilityImpact = ImpactTypeLow,
         exploitability = \<lparr> Score = 2.8, Exploitability = ExploitabilityTypeUnknown \<rparr> \<rparr>
   \<and> extractMetrics exampleMapCVSS
       (Some \<lparr> CvssMetricV31 = [], CvssMetricV30 = [],
               CvssMetricV2 = [mockV2, mockV2\<lparr> ImpactScore_V2 := 1 \<rparr>] \<rparr>) =
       \<lparr> baseCVSSScore = 5.0, baseSeverity = SeverityTypeMedium, impactScore = 2.9,
         access = AccessTypeNetwork, complexity = ComplexityTypeLow,
         privilegesRequired = PrivilegesRequiredUnknown, integrityImpact = ImpactTypeNone,
         availabilityImpact = ImpactTypeNone,
         exploitability = \<lparr> Score = 10.0, Exploitability = ExploitabilityTypeUnknown \<rparr> \<rparr>"
proof -
  note c2 = conjunct2
  have "extractMetrics exampleMapCVSS
     (Some \<lparr> CvssMetricV31 = [], CvssMetricV30 = [], CvssMetricV2 = [] \<rparr>) =
     \<lparr> baseCVSSScore = 0, baseSeverity = SeverityTypeUnknown, impactScore = 0,
       access = AccessTypeUnknown, complexity = ComplexityTypeUnknown,
       privilegesRequired = PrivilegesRequiredUnknown,
       integrityImpact = ImpactTypeUnknown, availabilityImpact = ImpactTypeUnknown,
       exploitability = \<lparr> Score = 0, Exploitability = ExploitabilityTypeUnknown \<rparr> \<rparr>"
    using extractMetrics_precedence
      [of exampleMapCVSS "\<lparr> CvssMetricV31 = [], CvssMetricV30 = [], CvssMetricV2 = [] \<rparr>",
       THEN c2, THEN conjunct1]
    by simp
  moreover
  have "extractMetrics exampleMapCVSS
       (Some \<lparr> CvssMetricV31 = [mockV31, mockV31\<lparr> ImpactScore_V31 := 1 \<rparr>],
               CvssMetricV30 = [mockV30], CvssMetricV2 = [mockV2] \<rparr>) =
       \<lparr> baseCVSSScore = 7.5, baseSeverity = SeverityTypeHigh, impactScore = 5.9,
         access = AccessTypeNetwork, complexity = ComplexityTypeLow,
         privilegesRequired = PrivilegesRequiredNone, integrityImpact = ImpactTypeHigh,
         availabilityImpact = ImpactTypeNone,
         exploitability = \<lparr> Score = 3.9, Exploitability = ExploitabilityTypeFunctional \<rparr> \<rparr>"
    using extractMetrics_precedence
      [of exampleMapCVSS
          "\<lparr> CvssMetricV31 = [mockV31, mockV31\<lparr> ImpactScore_V31 := 1 \<rparr>],
             CvssMetricV30 = [mockV30], CvssMetricV2 = [mockV2] \<rparr>",
       THEN c2, THEN c2, THEN conjunct1]
    by (simp add: mockV31_def)
  moreover
  have "extractMetrics exampleMapCVSS
       (Some \<lparr> CvssMetricV31 = [], CvssMetricV30 = [mockV30], CvssMetricV2 = [mockV2] \<rparr>) =
       \<lparr> baseCVSSScore = 6.8, baseSeverity = SeverityTypeMedium, impactScore = 3.9,
         access = AccessTypeNetwork, complexity = ComplexityTypeLow,
         privilegesRequired = PrivilegesRequiredNone, integrityImpact = ImpactTypeLow,
         availabilityImpact = ImpactTypeLow,
         exploitability = \<lparr> Score = 2.8, Exploitability = ExploitabilityTypeUnknown \<rparr> \<rparr>"
    using extractMetrics_precedence
      [of exampleMapCVSS
          "\<lparr> CvssMetricV31 = [], CvssMetricV30 = [mockV30], CvssMetricV2 = [mockV2] \<rparr>",
       THEN c2, THEN c2, THEN c2, THEN conjunct1]
    by (simp add: mockV30_def)
  moreover
  have "extractMetrics exampleMapCVSS
       (Some \<lparr> CvssMetricV31 = [], CvssMetricV30 = [],
               CvssMetricV2 = [mockV2, mockV2\<lparr> ImpactScore_V2 := 1 \<rparr>] \<rparr>) =
       \<lparr> baseCVSSScore = 5.0, baseSeverity = SeverityTypeMedium, impactScore = 2.9,
         access = AccessTypeNetwork, complexity = ComplexityTypeLow,
         privilegesRequired = PrivilegesRequiredUnknown, integrityImpact = ImpactTypeNone,
         availabilityImpact = ImpactTypeNone,
         exploitability = \<lparr> Score = 10.0, Exploitability = ExploitabilityTypeUnknown \<rparr> \<rparr>"
    using extractMetrics_precedence
      [of exampleMapCVSS
          "\<lparr> CvssMetricV31 = [], CvssMetricV30 = [],
             CvssMetricV2 = [mockV2, mockV2\<lparr> ImpactScore_V2 := 1 \<rparr>] \<rparr>",
       THEN c2, THEN c2, THEN c2, THEN c2]
    by (simp add: mockV2_def exampleMapCVSS_def)
  ultimately show ?thesis by blast
qed

text \<open>
  C10. When the 3.1 and 3.0 lists are empty and the 2.0 list is not, the
  privileges-required result is \<open>PrivilegesRequiredUnknown\<close>, whatever the 2.0 entry
  holds: the 2.0 branch never assigns it.
\<close>

theorem v2_privileges_unknown:
  "CvssMetricV31 m = [] \<Longrightarrow> CvssMetricV30 m = [] \<Longrightarrow> CvssMetricV2 m \<noteq> []
   \<Longrightarrow> privilegesRequired (extractMetrics MapCVSS (Some m)) = PrivilegesRequiredUnknown"
  by (simp add: extractMetrics_def defaultMetrics_def Let_def split: list.splits)

theorem v2_privileges_unknown_witness:
  "CvssMetricV31 \<lparr> CvssMetricV31 = [], CvssMetricV30 = [], CvssMetricV2 = [mockV2] \<rparr> = []
   \<and> CvssMetricV30 \<lparr> CvssMetricV31 = [], CvssMetricV30 = [], CvssMetricV2 = [mockV2] \<rparr> = []
   \<and> CvssMetricV2 \<lparr> CvssMetricV31 = [], CvssMetricV30 = [], CvssMetricV2 = [mockV2] \<rparr> \<noteq> []
   \<and> privilegesRequired
       (extractMetrics exampleMapCVSS
          (Some \<lparr> CvssMetricV31 = [], CvssMetricV30 = [], CvssMetricV2 = [mockV2] \<rparr>)) =
       PrivilegesRequiredUnknown"
  using v2_privileges_unknown
      [of "\<lparr> CvssMetricV31 = [], CvssMetricV30 = [], CvssMetricV2 = [mockV2] \<rparr>" exampleMapCVSS]
  by simp

section \<open>Likelihood\<close>

text \<open>
  C8. \<open>calculateLikelihoodSimple\<close> is a total function of the access and complexity of
  the vulnerability, and follows the table: Network with Low gives VeryHigh, Network
  with any other complexity gives High, AdjacentNetwork gives Medium, Local gives Low,
  Unknown gives Unknown, and every other access value, Physical among them, gives Low.
\<close>

theorem likelihood_table:
  "(Access vuln = AccessTypeNetwork \<and> Complexity vuln = ComplexityTypeLow
      \<longrightarrow> calculateLikelihoodSimple vuln = LikelyhoodTypeVeryHigh)
   \<and> (Access vuln = AccessTypeNetwork \<and> Complexity vuln \<noteq> ComplexityTypeLow
      \<longrightarrow> calculateLikelihoodSimple vuln = LikelyhoodTypeHigh)
   \<and> (Access vuln = AccessTypeAdjacentNetwork
      \<longrightarrow> calculateLikelihoodSimple vuln = LikelyhoodTypeMedium)
   \<and> (Access vuln = AccessTypeLocal
      \<longrightarrow> calculateLikelihoodSimple vuln = LikelyhoodTypeLow)
   \<and> (Access vuln = AccessTypeUnknown
      \<longrightarrow> calculateLikelihoodSimple vuln = LikelyhoodTypeUnknown)
   \<and> (Access vuln = AccesTypePhysical
      \<longrightarrow> calculateLikelihoodSimple vuln = LikelyhoodTypeLow)
   \<and> (Access vuln \<notin> {AccessTypeNetwork, AccessTypeAdjacentNetwork, AccessTypeLocal,
                       AccessTypeUnknown}
      \<longrightarrow> calculateLikelihoodSimple vuln = LikelyhoodTypeLow)"
  by (cases "Access vuln") (simp_all add: calculateLikelihoodSimple_def)

theorem likelihood_table_witness:
  "calculateLikelihoodSimple
     (exampleVuln\<lparr> Access := AccessTypeNetwork, Complexity := ComplexityTypeLow \<rparr>) =
     LikelyhoodTypeVeryHigh
   \<and> calculateLikelihoodSimple
       (exampleVuln\<lparr> Access := AccessTypeNetwork, Complexity := ComplexityTypeHigh \<rparr>) =
       LikelyhoodTypeHigh
   \<and> calculateLikelihoodSimple
       (exampleVuln\<lparr> Access := AccessTypeNetwork, Complexity := ComplexityTypeUnknown \<rparr>) =
       LikelyhoodTypeHigh
   \<and> calculateLikelihoodSimple (exampleVuln\<lparr> Access := AccessTypeAdjacentNetwork \<rparr>) =
       LikelyhoodTypeMedium
   \<and> calculateLikelihoodSimple (exampleVuln\<lparr> Access := AccessTypeLocal \<rparr>) =
       LikelyhoodTypeLow
   \<and> calculateLikelihoodSimple (exampleVuln\<lparr> Access := AccessTypeUnknown \<rparr>) =
       LikelyhoodTypeUnknown
   \<and> calculateLikelihoodSimple (exampleVuln\<lparr> Access := AccesTypePhysical \<rparr>) =
       LikelyhoodTypeLow
   \<and> calculateLikelihoodSimple (exampleVuln\<lparr> Access := AccessTypeOther \<rparr>) =
       LikelyhoodTypeLow"
  using
    likelihood_table
      [of "exampleVuln\<lparr> Access := AccessTypeNetwork, Complexity := ComplexityTypeLow \<rparr>"]
    likelihood_table
      [of "exampleVuln\<lparr> Access := AccessTypeNetwork, Complexity := ComplexityTypeHigh \<rparr>"]
    likelihood_table
      [of "exampleVuln\<lparr> Access := AccessTypeNetwork, Complexity := ComplexityTypeUnknown \<rparr>"]
    likelihood_table [of "exampleVuln\<lparr> Access := AccessTypeAdjacentNetwork \<rparr>"]
    likelihood_table [of "exampleVuln\<lparr> Access := AccessTypeLocal \<rparr>"]
    likelihood_table [of "exampleVuln\<lparr> Access := AccessTypeUnknown \<rparr>"]
    likelihood_table [of "exampleVuln\<lparr> Access := AccesTypePhysical \<rparr>"]
    likelihood_table [of "exampleVuln\<lparr> Access := AccessTypeOther \<rparr>"]
  by simp

section \<open>CPE validation and normalisation\<close>

lemma strings_Split_nonempty: "strings_Split s c \<noteq> []"
  by (induction s) (auto split: list.splits)

lemma strings_Split_no_sep: "t \<in> set (strings_Split s c) \<Longrightarrow> c \<notin> set t"
proof (induction s arbitrary: t)
  case Nil
  then show ?case by simp
next
  case (Cons x xs)
  show ?case
  proof (cases "x = c")
    case True
    with Cons show ?thesis by auto
  next
    case False
    obtain u us where us: "strings_Split xs c = u # us"
      using strings_Split_nonempty [of xs c] by (cases "strings_Split xs c") auto
    with Cons False show ?thesis by auto
  qed
qed

lemma strings_Split_single: "c \<notin> set x \<Longrightarrow> strings_Split x c = [x]"
  by (induction x) auto

lemma strings_Split_append_sep:
  "c \<notin> set x \<Longrightarrow> strings_Split (x @ c # rest) c = x # strings_Split rest c"
  by (induction x) auto

lemma strings_Split_Join:
  "xs \<noteq> [] \<Longrightarrow> \<forall>t \<in> set xs. c \<notin> set t \<Longrightarrow> strings_Split (strings_Join xs [c]) c = xs"
proof (induction xs "[c]" rule: strings_Join.induct)
  case 1
  then show ?case by simp
next
  case (2 x)
  then show ?case by (simp add: strings_Split_single)
next
  case (3 x y ys)
  then show ?case by (simp add: strings_Split_append_sep)
qed

lemma appendWildcards_replicate: "appendWildcards n ps = ps @ replicate n ''*''"
  by (induction n arbitrary: ps) (simp_all add: replicate_append_same)

lemma TrimPrefix_no_sep: "c \<notin> set t \<Longrightarrow> c \<notin> set (strings_TrimPrefix t p)"
  by (auto simp: strings_TrimPrefix_def dest: in_set_dropD)

lemma errors_Is_checkComponents:
  "checkComponents parts cs = Some e \<Longrightarrow> errors_Is e ErrInvalidCPE"
  by (induction parts cs rule: checkComponents.induct) (auto split: if_splits)

lemma checkComponents_None:
  "(checkComponents parts cs = None) = (\<forall>(i, n) \<in> set cs. parts ! i \<noteq> ''*'')"
  by (induction parts cs rule: checkComponents.induct) auto

text \<open>
  C5. \<open>isValidCPE\<close> returns no error exactly when the string splits on the colon into
  13 tokens, token 0 is \<open>cpe\<close>, token 1 is \<open>2.3\<close>, and none of the tokens 2 to 5 is the
  wildcard; tokens 6 to 12 play no part. Every error it returns wraps \<open>ErrInvalidCPE\<close>.
\<close>

theorem isValidCPE_iff:
  "(isValidCPE cpe = None) =
     (let parts = strings_Split cpe (CHR '':'') in
      length parts = 13 \<and> parts ! 0 = ''cpe'' \<and> parts ! 1 = ''2.3''
      \<and> parts ! 2 \<noteq> ''*'' \<and> parts ! 3 \<noteq> ''*'' \<and> parts ! 4 \<noteq> ''*'' \<and> parts ! 5 \<noteq> ''*'')
   \<and> (\<forall>e. isValidCPE cpe = Some e \<longrightarrow> errors_Is e ErrInvalidCPE)"
proof
  show "(isValidCPE cpe = None) =
     (let parts = strings_Split cpe (CHR '':'') in
      length parts = 13 \<and> parts ! 0 = ''cpe'' \<and> parts ! 1 = ''2.3''
      \<and> parts ! 2 \<noteq> ''*'' \<and> parts ! 3 \<noteq> ''*'' \<and> parts ! 4 \<noteq> ''*'' \<and> parts ! 5 \<noteq> ''*'')"
    by (simp add: isValidCPE_def Let_def checkComponents_None componentsToCheck_def)
  show "\<forall>e. isValidCPE cpe = Some e \<longrightarrow> errors_Is e ErrInvalidCPE"
    by (auto simp: isValidCPE_def Let_def split: if_splits dest: errors_Is_checkComponents)
qed


lemma strings_Split_std_prefix:
  "strings_Split (''cpe:2.3:'' @ s) (CHR '':'') = ''cpe'' # ''2.3'' # strings_Split s (CHR '':'')"
  by simp

lemma TrimPrefix_cpe:
  "strings_HasPrefix cpe ''cpe:/'' \<Longrightarrow> strings_TrimPrefix cpe ''cpe:/'' = drop 5 cpe"
  by (simp add: strings_TrimPrefix_def eval_nat_numeral)

lemma standardize_fields:
  assumes "4 \<le> length (strings_Split s (CHR '':''))"
  shows "length (take 11 ((strings_Split s (CHR '':''))
                   [0 := strings_TrimPrefix (strings_Split s (CHR '':'') ! 0) ''/'']
                @ replicate (11 - length (strings_Split s (CHR '':''))) ''*'')) = 11"
    and "\<forall>f \<in> set (take 11 ((strings_Split s (CHR '':''))
                   [0 := strings_TrimPrefix (strings_Split s (CHR '':'') ! 0) ''/'']
                @ replicate (11 - length (strings_Split s (CHR '':''))) ''*'')).
           CHR '':'' \<notin> set f"
proof -
  let ?parts = "strings_Split s (CHR '':'')"
  let ?parts1 = "?parts[0 := strings_TrimPrefix (?parts ! 0) ''/'']"
  show "length (take 11 (?parts1 @ replicate (11 - length ?parts) ''*'')) = 11"
    by simp
  have "\<forall>f \<in> set ?parts. CHR '':'' \<notin> set f"
    using strings_Split_no_sep by blast
  then have "\<forall>f \<in> set ?parts1. CHR '':'' \<notin> set f"
    using assms by (cases ?parts) (auto simp: TrimPrefix_no_sep)
  then show "\<forall>f \<in> set (take 11 (?parts1 @ replicate (11 - length ?parts) ''*'')).
               CHR '':'' \<notin> set f"
    by (auto dest!: in_set_takeD)
qed

text \<open>
  C6. An input without the prefix \<open>cpe:/\<close>, and an input with the prefix whose remainder
  splits into fewer than 4 fields, is rejected with an error. An input with the prefix
  and at least 4 fields is accepted: the output is \<open>cpe:2.3:\<close> followed by exactly 11
  fields joined by colons (it splits into \<open>cpe\<close>, \<open>2.3\<close> and those 11 fields), which are
  the input's fields with one leading slash of the first field removed, padded with
  wildcards or cut to 11.
\<close>

theorem standardizeCPE_spec:
  "(\<not> strings_HasPrefix cpe ''cpe:/'' \<longrightarrow>
      standardizeCPE cpe =
        Inl (Errorf (''CPE does not start with '' @ [quote] @ ''cpe:/'' @ [quote] @ '': %s'')
               [AStr cpe]))
   \<and> (strings_HasPrefix cpe ''cpe:/'' \<and> length (strings_Split (drop 5 cpe) (CHR '':'')) < 4 \<longrightarrow>
      standardizeCPE cpe =
        Inl (Errorf ''CPE is too short, needs at least part, vendor, product and version: %s''
               [AStr cpe]))
   \<and> (strings_HasPrefix cpe ''cpe:/'' \<and> 4 \<le> length (strings_Split (drop 5 cpe) (CHR '':'')) \<longrightarrow>
      (\<exists>flds.
         standardizeCPE cpe = Inr (''cpe:2.3:'' @ strings_Join flds '':'')
         \<and> length flds = 11
         \<and> strings_Split (''cpe:2.3:'' @ strings_Join flds '':'') (CHR '':'') =
             ''cpe'' # ''2.3'' # flds
         \<and> flds =
             take 11
               ((strings_Split (drop 5 cpe) (CHR '':''))
                   [0 := strings_TrimPrefix (strings_Split (drop 5 cpe) (CHR '':'') ! 0) ''/'']
                @ replicate (11 - length (strings_Split (drop 5 cpe) (CHR '':''))) ''*'')))"
proof (intro conjI impI)
  show "\<not> strings_HasPrefix cpe ''cpe:/'' \<Longrightarrow>
      standardizeCPE cpe =
        Inl (Errorf (''CPE does not start with '' @ [quote] @ ''cpe:/'' @ [quote] @ '': %s'')
               [AStr cpe])"
    by (simp add: standardizeCPE_def)
  show "strings_HasPrefix cpe ''cpe:/'' \<and> length (strings_Split (drop 5 cpe) (CHR '':'')) < 4 \<Longrightarrow>
      standardizeCPE cpe =
        Inl (Errorf ''CPE is too short, needs at least part, vendor, product and version: %s''
               [AStr cpe])"
    by (simp add: standardizeCPE_def TrimPrefix_cpe Let_def)
next
  let ?parts = "strings_Split (drop 5 cpe) (CHR '':'')"
  let ?flds = "take 11 (?parts[0 := strings_TrimPrefix (?parts ! 0) ''/'']
                          @ replicate (11 - length ?parts) ''*'')"
  assume a: "strings_HasPrefix cpe ''cpe:/'' \<and> 4 \<le> length ?parts"
  from a have len: "4 \<le> length ?parts" by simp
  note sf = standardize_fields [OF len]
  have p: "strings_TrimPrefix cpe ''cpe:/'' = drop 5 cpe"
    using a by (simp add: TrimPrefix_cpe)
  have r: "standardizeCPE cpe = Inr (''cpe:2.3:'' @ strings_Join ?flds '':'')"
  proof (cases "length ?parts < 11")
    case True
    then have n: "nat (11 - int (length ?parts)) = 11 - length ?parts" by simp
    show ?thesis
      unfolding standardizeCPE_def p using a True n
      by (simp add: Let_def appendWildcards_replicate)
  next
    case False
    show ?thesis
      unfolding standardizeCPE_def p using a False
      by (auto simp: Let_def)
  qed
  have l: "length ?flds = 11" using sf(1) .
  then have ne: "?flds \<noteq> []" by auto
  have "strings_Split (strings_Join ?flds [CHR '':'']) (CHR '':'') = ?flds"
    using strings_Split_Join [OF ne] sf(2) by blast
  then have s: "strings_Split (''cpe:2.3:'' @ strings_Join ?flds '':'') (CHR '':'') =
             ''cpe'' # ''2.3'' # ?flds"
    by (simp only: strings_Split_std_prefix)
  show "\<exists>flds.
         standardizeCPE cpe = Inr (''cpe:2.3:'' @ strings_Join flds '':'')
         \<and> length flds = 11
         \<and> strings_Split (''cpe:2.3:'' @ strings_Join flds '':'') (CHR '':'') =
             ''cpe'' # ''2.3'' # flds
         \<and> flds =
             take 11
               (?parts[0 := strings_TrimPrefix (?parts ! 0) ''/'']
                @ replicate (11 - length ?parts) ''*'')"
    using r l s by blast
qed


theorem isValidCPE_iff_witness:
  "isValidCPE ''cpe:2.3:o:microsoft:windows_10:1607:*:*:*:*:*:*:*'' = None
   \<and> (\<exists>e. isValidCPE ''cpe:2.3:o:microsoft:windows_10:*:*:*:*:*:*:*:*'' = Some e
          \<and> errors_Is e ErrInvalidCPE)
   \<and> (\<exists>e. isValidCPE ''cpe:2.3:*:microsoft:windows_10:1607:*:*:*:*:*:*:*:*:*:*:*'' = Some e
          \<and> errors_Is e ErrInvalidCPE)
   \<and> (\<exists>e. isValidCPE ''cp:2.3:o:microsoft:windows_10:1607:*:*:*:*:*:*:*'' = Some e
          \<and> errors_Is e ErrInvalidCPE)
   \<and> (\<exists>e. isValidCPE ''cpe:2.4:o:microsoft:windows_10:1607:*:*:*:*:*:*:*'' = Some e
          \<and> errors_Is e ErrInvalidCPE)"
proof -
  have "isValidCPE ''cpe:2.3:o:microsoft:windows_10:1607:*:*:*:*:*:*:*'' = None"
    using isValidCPE_iff [of "''cpe:2.3:o:microsoft:windows_10:1607:*:*:*:*:*:*:*''"]
    by simp
  moreover
  have "\<exists>e. isValidCPE ''cpe:2.3:o:microsoft:windows_10:*:*:*:*:*:*:*:*'' = Some e
          \<and> errors_Is e ErrInvalidCPE"
    using isValidCPE_iff [of "''cpe:2.3:o:microsoft:windows_10:*:*:*:*:*:*:*:*''"]
    by (cases "isValidCPE ''cpe:2.3:o:microsoft:windows_10:*:*:*:*:*:*:*:*''") simp_all
  moreover
  have "\<exists>e. isValidCPE ''cpe:2.3:*:microsoft:windows_10:1607:*:*:*:*:*:*:*:*:*:*:*'' = Some e
          \<and> errors_Is e ErrInvalidCPE"
    using isValidCPE_iff [of "''cpe:2.3:*:microsoft:windows_10:1607:*:*:*:*:*:*:*:*:*:*:*''"]
    by (cases "isValidCPE ''cpe:2.3:*:microsoft:windows_10:1607:*:*:*:*:*:*:*:*:*:*:*''")
       simp_all
  moreover
  have "\<exists>e. isValidCPE ''cp:2.3:o:microsoft:windows_10:1607:*:*:*:*:*:*:*'' = Some e
          \<and> errors_Is e ErrInvalidCPE"
    using isValidCPE_iff [of "''cp:2.3:o:microsoft:windows_10:1607:*:*:*:*:*:*:*''"]
    by (cases "isValidCPE ''cp:2.3:o:microsoft:windows_10:1607:*:*:*:*:*:*:*''") simp_all
  moreover
  have "\<exists>e. isValidCPE ''cpe:2.4:o:microsoft:windows_10:1607:*:*:*:*:*:*:*'' = Some e
          \<and> errors_Is e ErrInvalidCPE"
    using isValidCPE_iff [of "''cpe:2.4:o:microsoft:windows_10:1607:*:*:*:*:*:*:*''"]
    by (cases "isValidCPE ''cpe:2.4:o:microsoft:windows_10:1607:*:*:*:*:*:*:*''") simp_all
  ultimately show ?thesis by blast
qed

theorem standardizeCPE_spec_witness:
  "standardizeCPE ''cpe:/o:microsoft:windows_10:1607'' =
     Inr ''cpe:2.3:o:microsoft:windows_10:1607:*:*:*:*:*:*:*''
   \<and> standardizeCPE ''cpe://a:b:c:d:e:f:g:h:i:j:k:l:m'' =
       Inr ''cpe:2.3:a:b:c:d:e:f:g:h:i:j:k''
   \<and> standardizeCPE ''cpe:/a:dovecot:dovecot'' =
       Inl (Errorf ''CPE is too short, needs at least part, vendor, product and version: %s''
              [AStr ''cpe:/a:dovecot:dovecot''])
   \<and> standardizeCPE ''invalid-cpe:/a:test:test'' =
       Inl (Errorf (''CPE does not start with '' @ [quote] @ ''cpe:/'' @ [quote] @ '': %s'')
              [AStr ''invalid-cpe:/a:test:test''])"
proof -
  note c2 = conjunct2
  have "standardizeCPE ''cpe:/o:microsoft:windows_10:1607'' =
     Inr ''cpe:2.3:o:microsoft:windows_10:1607:*:*:*:*:*:*:*''"
    using standardizeCPE_spec [of "''cpe:/o:microsoft:windows_10:1607''", THEN c2, THEN c2]
    by (simp add: strings_HasPrefix_def strings_TrimPrefix_def eval_nat_numeral)
  moreover
  have "standardizeCPE ''cpe://a:b:c:d:e:f:g:h:i:j:k:l:m'' =
       Inr ''cpe:2.3:a:b:c:d:e:f:g:h:i:j:k''"
    using standardizeCPE_spec [of "''cpe://a:b:c:d:e:f:g:h:i:j:k:l:m''", THEN c2, THEN c2]
    by (simp add: strings_HasPrefix_def strings_TrimPrefix_def eval_nat_numeral)
  moreover
  have "standardizeCPE ''cpe:/a:dovecot:dovecot'' =
       Inl (Errorf ''CPE is too short, needs at least part, vendor, product and version: %s''
              [AStr ''cpe:/a:dovecot:dovecot''])"
    using standardizeCPE_spec [of "''cpe:/a:dovecot:dovecot''", THEN c2, THEN conjunct1]
    by (simp add: strings_HasPrefix_def)
  moreover
  have "standardizeCPE ''invalid-cpe:/a:test:test'' =
       Inl (Errorf (''CPE does not start with '' @ [quote] @ ''cpe:/'' @ [quote] @ '': %s'')
              [AStr ''invalid-cpe:/a:test:test''])"
    using standardizeCPE_spec [of "''invalid-cpe:/a:test:test''", THEN conjunct1]
    by (simp add: strings_HasPrefix_def)
  ultimately show ?thesis by blast
qed

section \<open>The fetcher: retries and failures\<close>

lemma attemptFetch_503:
  "NewRequest env apiURL = None
   \<Longrightarrow> replyStatus (Do env (calls w) apiURL) = Some StatusServiceUnavailable
   \<Longrightarrow> attemptFetch env apiURL w = (Inl ErrNVDServiceUnavailable, w\<lparr> calls := calls w + 1 \<rparr>)"
  by (cases "Do env (calls w) apiURL") (simp_all add: attemptFetch_def Let_def)

lemma shouldRetry_503: "shouldRetry ErrNVDServiceUnavailable"
  by (simp add: shouldRetry_def)

lemma fetchLoop_503_step:
  assumes "NewRequest env apiURL = None"
    and "replyStatus (Do env (calls w) apiURL) = Some StatusServiceUnavailable"
    and "attempt \<le> maxRetries"
  shows "fetchLoop env cpe apiURL attempt lastErr w =
         fetchLoop env cpe apiURL (attempt + 1) (Some ErrNVDServiceUnavailable)
           (w\<lparr> calls := calls w + 1, slept := slept w @ [calculateRetryDelay attempt] \<rparr>)"
  by (subst fetchLoop.simps) (simp add: assms attemptFetch_503 shouldRetry_503)

lemma fetchLoop_503_prefix:
  "NewRequest env apiURL = None
   \<Longrightarrow> \<forall>j<n. replyStatus (Do env (calls w + j) apiURL) = Some StatusServiceUnavailable
   \<Longrightarrow> attempt + n \<le> maxRetries + 1
   \<Longrightarrow> fetchLoop env cpe apiURL attempt lastErr w =
       fetchLoop env cpe apiURL (attempt + n)
         (if n = 0 then lastErr else Some ErrNVDServiceUnavailable)
         (w\<lparr> calls := calls w + n,
            slept := slept w @ map calculateRetryDelay [attempt..<attempt + n] \<rparr>)"
proof (induction n arbitrary: attempt lastErr w)
  case 0
  then show ?case by simp
next
  case (Suc n)
  let ?w' = "w\<lparr> calls := calls w + 1, slept := slept w @ [calculateRetryDelay attempt] \<rparr>"
  have first: "replyStatus (Do env (calls w) apiURL) = Some StatusServiceUnavailable"
    using Suc.prems(2) [rule_format, of 0] by simp
  have rest: "\<forall>j<n. replyStatus (Do env (calls ?w' + j) apiURL) = Some StatusServiceUnavailable"
  proof (intro allI impI)
    fix j assume "j < n"
    then have "Suc j < Suc n" by simp
    then have "replyStatus (Do env (calls w + Suc j) apiURL) = Some StatusServiceUnavailable"
      using Suc.prems(2) by blast
    then show "replyStatus (Do env (calls ?w' + j) apiURL) = Some StatusServiceUnavailable"
      by simp
  qed
  have le: "attempt \<le> maxRetries" using Suc.prems(3) by simp
  have le': "(attempt + 1) + n \<le> maxRetries + 1" using Suc.prems(3) by simp
  have "fetchLoop env cpe apiURL attempt lastErr w =
        fetchLoop env cpe apiURL (attempt + 1) (Some ErrNVDServiceUnavailable) ?w'"
    using fetchLoop_503_step [OF Suc.prems(1) first le] .
  also have "\<dots> = fetchLoop env cpe apiURL ((attempt + 1) + n)
         (if n = 0 then Some ErrNVDServiceUnavailable else Some ErrNVDServiceUnavailable)
         (?w'\<lparr> calls := calls ?w' + n,
            slept := slept ?w' @ map calculateRetryDelay [attempt + 1..<(attempt + 1) + n] \<rparr>)"
    using Suc.IH [OF Suc.prems(1) rest le'] .
  also have "\<dots> = fetchLoop env cpe apiURL (attempt + Suc n)
         (if Suc n = 0 then lastErr else Some ErrNVDServiceUnavailable)
         (w\<lparr> calls := calls w + Suc n,
            slept := slept w @ map calculateRetryDelay [attempt..<attempt + Suc n] \<rparr>)"
  proof -
    have e1: "attempt + 1 = Suc attempt" "Suc attempt + n = attempt + Suc n" by simp_all
    have "attempt < attempt + Suc n" by simp
    then have u: "[attempt..<attempt + Suc n] = attempt # [attempt + 1..<(attempt + 1) + n]"
      unfolding e1 by (rule upt_conv_Cons)
    show ?thesis unfolding u by simp
  qed
  finally show ?case .
qed

lemma fetchLoop_exhausted:
  "maxRetries < attempt \<Longrightarrow>
   fetchLoop env cpe apiURL attempt (Some e) w =
     (Inl (ErrorfW ''failed NVD API request after %d retries: %w'' [AInt (int maxRetries)] e), w)"
  by (subst fetchLoop.simps) simp


lemma fetchLoop_first_attempt:
  "attempt \<le> maxRetries \<Longrightarrow> attemptFetch env apiURL w = (Inl e, w') \<Longrightarrow> \<not> shouldRetry e
   \<Longrightarrow> fetchLoop env cpe apiURL attempt lastErr w =
       (Inl (ErrorfW ''non-retriable error for CPE %s: %w'' [AStr cpe] e), w')"
  by (subst fetchLoop.simps) simp

lemma fetchLoop_success:
  "attempt \<le> maxRetries \<Longrightarrow> attemptFetch env apiURL w = (Inr r, w')
   \<Longrightarrow> fetchLoop env cpe apiURL attempt lastErr w = (Inr r, w')"
  by (subst fetchLoop.simps) simp

text \<open>
  C2. When the request can be built and each of the first \<open>maxRetries + 1\<close> calls is
  answered with 503, \<open>fetchNvdDataByCPE\<close> makes exactly \<open>maxRetries + 1\<close> calls and fails
  with the last error, \<open>ErrNVDServiceUnavailable\<close>, wrapped in a message that carries the
  number \<open>maxRetries\<close>. When the calls before the \<open>k\<close>-th are answered with 503 and the
  \<open>k\<close>-th (\<open>k \<le> maxRetries\<close>) with 200 and a body that decodes, it returns the decoded
  body, and that call is the last one made.
\<close>

theorem fetch_retries_then_fails_or_returns:
  "(NewRequest env (buildURL env cpe baseNvdAPIURL) = None
    \<and> (\<forall>j<maxRetries + 1.
          replyStatus (Do env (calls w + j) (buildURL env cpe baseNvdAPIURL)) =
            Some StatusServiceUnavailable)
    \<longrightarrow> fst (fetchNvdDataByCPE env cpe baseNvdAPIURL w) =
          Inl (ErrorfW ''failed NVD API request after %d retries: %w'' [AInt (int maxRetries)]
                 ErrNVDServiceUnavailable)
        \<and> errors_Is
            (ErrorfW ''failed NVD API request after %d retries: %w'' [AInt (int maxRetries)]
               ErrNVDServiceUnavailable) ErrNVDServiceUnavailable
        \<and> calls (snd (fetchNvdDataByCPE env cpe baseNvdAPIURL w)) = calls w + (maxRetries + 1))
   \<and> (\<forall>k Status r.
         NewRequest env (buildURL env cpe baseNvdAPIURL) = None
         \<and> k \<le> maxRetries
         \<and> (\<forall>j<k. replyStatus (Do env (calls w + j) (buildURL env cpe baseNvdAPIURL)) =
                     Some StatusServiceUnavailable)
         \<and> Do env (calls w + k) (buildURL env cpe baseNvdAPIURL) = Response StatusOK Status (Inr r)
         \<longrightarrow> fst (fetchNvdDataByCPE env cpe baseNvdAPIURL w) = Inr r
             \<and> calls (snd (fetchNvdDataByCPE env cpe baseNvdAPIURL w)) = calls w + (k + 1))"
proof (intro conjI allI impI)
  let ?u = "buildURL env cpe baseNvdAPIURL"
  assume a: "NewRequest env ?u = None
    \<and> (\<forall>j<maxRetries + 1. replyStatus (Do env (calls w + j) ?u) = Some StatusServiceUnavailable)"
  have "fetchNvdDataByCPE env cpe baseNvdAPIURL w =
        fetchLoop env cpe ?u (0 + (maxRetries + 1))
          (if maxRetries + 1 = 0 then None else Some ErrNVDServiceUnavailable)
          (w\<lparr> calls := calls w + (maxRetries + 1),
               slept := slept w @ map calculateRetryDelay [0..<0 + (maxRetries + 1)] \<rparr>)"
    unfolding fetchNvdDataByCPE_def using a
    by (intro fetchLoop_503_prefix) simp_all
  then have r: "fetchNvdDataByCPE env cpe baseNvdAPIURL w =
        (Inl (ErrorfW ''failed NVD API request after %d retries: %w'' [AInt (int maxRetries)]
                ErrNVDServiceUnavailable),
         w\<lparr> calls := calls w + (maxRetries + 1),
              slept := slept w @ map calculateRetryDelay [0..<0 + (maxRetries + 1)] \<rparr>)"
    by (simp add: fetchLoop_exhausted)
  show "fst (fetchNvdDataByCPE env cpe baseNvdAPIURL w) =
          Inl (ErrorfW ''failed NVD API request after %d retries: %w'' [AInt (int maxRetries)]
                 ErrNVDServiceUnavailable)"
    by (simp add: r)
  show "calls (snd (fetchNvdDataByCPE env cpe baseNvdAPIURL w)) = calls w + (maxRetries + 1)"
    by (simp add: r)
  show "errors_Is
          (ErrorfW ''failed NVD API request after %d retries: %w'' [AInt (int maxRetries)]
             ErrNVDServiceUnavailable) ErrNVDServiceUnavailable"
    by simp
next
  fix k Status r
  let ?u = "buildURL env cpe baseNvdAPIURL"
  assume a: "NewRequest env ?u = None
         \<and> k \<le> maxRetries
         \<and> (\<forall>j<k. replyStatus (Do env (calls w + j) ?u) = Some StatusServiceUnavailable)
         \<and> Do env (calls w + k) ?u = Response StatusOK Status (Inr r)"
  let ?w = "w\<lparr> calls := calls w + k, slept := slept w @ map calculateRetryDelay [0..<0 + k] \<rparr>"
  have "fetchNvdDataByCPE env cpe baseNvdAPIURL w =
        fetchLoop env cpe ?u (0 + k) (if k = 0 then None else Some ErrNVDServiceUnavailable) ?w"
    unfolding fetchNvdDataByCPE_def using a
    by (intro fetchLoop_503_prefix) simp_all
  moreover have "attemptFetch env ?u ?w = (Inr r, ?w\<lparr> calls := calls ?w + 1 \<rparr>)"
    using a by (simp add: attemptFetch_def Let_def StatusOK_def StatusServiceUnavailable_def)
  ultimately have res: "fetchNvdDataByCPE env cpe baseNvdAPIURL w =
      (Inr r, ?w\<lparr> calls := calls ?w + 1 \<rparr>)"
    using a by (simp add: fetchLoop_success)
  show "fst (fetchNvdDataByCPE env cpe baseNvdAPIURL w) = Inr r"
    by (simp add: res)
  show "calls (snd (fetchNvdDataByCPE env cpe baseNvdAPIURL w)) = calls w + (k + 1)"
    by (simp add: res)
qed

theorem fetch_retries_then_fails_or_returns_witness:
  "fst (fetchNvdDataByCPE always503 ''cpe:2.3:o:microsoft:windows_10:1607:*:*:*:*:*:*:*''
          ''http://127.0.0.1:8080'' world0) =
     Inl (ErrorfW ''failed NVD API request after %d retries: %w'' [AInt 3]
            ErrNVDServiceUnavailable)
   \<and> calls (snd (fetchNvdDataByCPE always503
                   ''cpe:2.3:o:microsoft:windows_10:1607:*:*:*:*:*:*:*''
                   ''http://127.0.0.1:8080'' world0)) = 4
   \<and> fst (fetchNvdDataByCPE thenOK ''cpe:2.3:o:microsoft:windows_10:1607:*:*:*:*:*:*:*''
            ''http://127.0.0.1:8080'' world0) = Inr 7
   \<and> calls (snd (fetchNvdDataByCPE thenOK
                   ''cpe:2.3:o:microsoft:windows_10:1607:*:*:*:*:*:*:*''
                   ''http://127.0.0.1:8080'' world0)) = 4
   \<and> fst (fetchNvdDataByCPE (replies [])
            ''cpe:2.3:o:microsoft:windows_10:1607:*:*:*:*:*:*:*''
            ''http://127.0.0.1:8080'' world0) = Inr 7
   \<and> calls (snd (fetchNvdDataByCPE (replies [])
                   ''cpe:2.3:o:microsoft:windows_10:1607:*:*:*:*:*:*:*''
                   ''http://127.0.0.1:8080'' world0)) = 1"
proof -
  let ?cpe = "''cpe:2.3:o:microsoft:windows_10:1607:*:*:*:*:*:*:*''"
  let ?base = "''http://127.0.0.1:8080''"
  have "fst (fetchNvdDataByCPE always503 ?cpe ?base world0) =
          Inl (ErrorfW ''failed NVD API request after %d retries: %w'' [AInt 3]
                 ErrNVDServiceUnavailable)
        \<and> calls (snd (fetchNvdDataByCPE always503 ?cpe ?base world0)) = 4"
    using fetch_retries_then_fails_or_returns
            [of always503 ?cpe ?base world0, THEN conjunct1]
    by (simp add: always503_def world0_def maxRetries_def StatusServiceUnavailable_def)
  moreover
  have "fst (fetchNvdDataByCPE thenOK ?cpe ?base world0) = Inr 7
        \<and> calls (snd (fetchNvdDataByCPE thenOK ?cpe ?base world0)) = 4"
    using fetch_retries_then_fails_or_returns
            [of thenOK ?cpe ?base world0, THEN conjunct2, rule_format, of 3 "''200 OK''" 7]
    by (simp add: thenOK_def world0_def maxRetries_def StatusServiceUnavailable_def
        StatusOK_def)
  moreover
  have "fst (fetchNvdDataByCPE (replies []) ?cpe ?base world0) = Inr 7
        \<and> calls (snd (fetchNvdDataByCPE (replies []) ?cpe ?base world0)) = 1"
    using fetch_retries_then_fails_or_returns
            [of "replies []" ?cpe ?base world0, THEN conjunct2, rule_format,
             of 0 "''200 OK''" 7]
    by (simp add: replies_def world0_def StatusOK_def)
  ultimately show ?thesis by blast
qed

text \<open>
  C3. Against the server that answers every call with 503, the fetcher makes 4 calls and
  sleeps 4 times, \<open>maxRetries + 1\<close> and not \<open>maxRetries\<close>: the last sleep, of 15 seconds,
  comes after the final attempt, just before the error is returned. No sleep precedes
  the first attempt.
\<close>

theorem fetch_sleeps_after_final_attempt:
  "snd (fetchNvdDataByCPE always503 ''cpe:2.3:o:microsoft:windows_10:1607:*:*:*:*:*:*:*''
          ''https://services.nvd.nist.gov/rest/json/cves/2.0'' world0) =
     \<lparr> calls = 4, slept = [6 * Second, 12 * Second, 15 * Second, 15 * Second] \<rparr>
   \<and> length (slept (snd (fetchNvdDataByCPE always503
                 ''cpe:2.3:o:microsoft:windows_10:1607:*:*:*:*:*:*:*''
                 ''https://services.nvd.nist.gov/rest/json/cves/2.0'' world0))) = maxRetries + 1"
proof -
  let ?u = "buildURL always503 ''cpe:2.3:o:microsoft:windows_10:1607:*:*:*:*:*:*:*''
              ''https://services.nvd.nist.gov/rest/json/cves/2.0''"
  have "fetchLoop always503 ''cpe:2.3:o:microsoft:windows_10:1607:*:*:*:*:*:*:*'' ?u 0 None world0 =
        fetchLoop always503 ''cpe:2.3:o:microsoft:windows_10:1607:*:*:*:*:*:*:*'' ?u (0 + 4)
          (if (4::nat) = 0 then None else Some ErrNVDServiceUnavailable)
          (world0\<lparr> calls := calls world0 + 4,
               slept := slept world0 @ map calculateRetryDelay [0..<0 + 4] \<rparr>)"
    by (intro fetchLoop_503_prefix)
       (simp_all add: always503_def StatusServiceUnavailable_def maxRetries_def)
  moreover have "map calculateRetryDelay [0..<0 + 4] =
                 [6 * Second, 12 * Second, 15 * Second, 15 * Second]"
    by (simp add: calculateRetryDelay_def initialRetryDelay_def Second_def Let_def upt_rec)
  ultimately show ?thesis
    by (simp add: fetchNvdDataByCPE_def fetchLoop_exhausted maxRetries_def world0_def)
qed

lemma fetch_after_503s:
  assumes "NewRequest env (buildURL env cpe baseNvdAPIURL) = None"
    and "k \<le> maxRetries"
    and "\<forall>j<k. replyStatus (Do env (calls w + j) (buildURL env cpe baseNvdAPIURL)) =
                 Some StatusServiceUnavailable"
    and "attemptFetch env (buildURL env cpe baseNvdAPIURL)
           (w\<lparr> calls := calls w + k, slept := slept w @ map calculateRetryDelay [0..<k] \<rparr>) =
         (Inl e, w')"
    and "\<not> shouldRetry e"
  shows "fetchNvdDataByCPE env cpe baseNvdAPIURL w =
         (Inl (ErrorfW ''non-retriable error for CPE %s: %w'' [AStr cpe] e), w')"
proof -
  let ?u = "buildURL env cpe baseNvdAPIURL"
  let ?w = "w\<lparr> calls := calls w + k, slept := slept w @ map calculateRetryDelay [0..<0 + k] \<rparr>"
  have "fetchNvdDataByCPE env cpe baseNvdAPIURL w =
        fetchLoop env cpe ?u (0 + k) (if k = 0 then None else Some ErrNVDServiceUnavailable) ?w"
    unfolding fetchNvdDataByCPE_def using assms(1-3)
    by (intro fetchLoop_503_prefix) simp_all
  also have "\<dots> = (Inl (ErrorfW ''non-retriable error for CPE %s: %w'' [AStr cpe] e), w')"
    using assms(2,4,5) by (intro fetchLoop_first_attempt) simp_all
  finally show ?thesis .
qed

text \<open>
  C7. When a call ends in a transport error, in a status other than 200 and 503, or in a
  200 whose body does not decode, \<open>fetchNvdDataByCPE\<close> returns at once with that error
  wrapped: the transport's error, \<open>ErrNVDAPIStatus\<close>, or \<open>ErrNVDDecode\<close> with the
  decoder's error. This holds at the first call (\<open>k = 0\<close>: one call made, nothing slept)
  and after any \<open>k \<le> maxRetries\<close> calls answered with 503: then \<open>k + 1\<close> calls have been
  made and only the \<open>k\<close> delays that followed the 503 replies have been slept. An error of
  \<open>attemptFetch\<close> is retriable exactly when the reply was a 503.
\<close>

theorem fetch_non_retriable:
  "(\<forall>k e. NewRequest env (buildURL env cpe baseNvdAPIURL) = None
         \<and> k \<le> maxRetries
         \<and> (\<forall>j<k. replyStatus (Do env (calls w + j) (buildURL env cpe baseNvdAPIURL)) =
                     Some StatusServiceUnavailable)
         \<and> Do env (calls w + k) (buildURL env cpe baseNvdAPIURL) = TransportError e
      \<longrightarrow> fetchNvdDataByCPE env cpe baseNvdAPIURL w =
            (Inl (ErrorfW ''non-retriable error for CPE %s: %w'' [AStr cpe]
                    (ErrorfW ''failed NVD API request: %w'' [] (LibError e))),
             w\<lparr> calls := calls w + (k + 1),
                  slept := slept w @ map calculateRetryDelay [0..<k] \<rparr>)
          \<and> errors_Is
              (ErrorfW ''non-retriable error for CPE %s: %w'' [AStr cpe]
                 (ErrorfW ''failed NVD API request: %w'' [] (LibError e)))
              (LibError e))
   \<and> (\<forall>k StatusCode Status body.
         NewRequest env (buildURL env cpe baseNvdAPIURL) = None
         \<and> k \<le> maxRetries
         \<and> (\<forall>j<k. replyStatus (Do env (calls w + j) (buildURL env cpe baseNvdAPIURL)) =
                     Some StatusServiceUnavailable)
         \<and> Do env (calls w + k) (buildURL env cpe baseNvdAPIURL) =
             Response StatusCode Status body
         \<and> StatusCode \<noteq> StatusServiceUnavailable \<and> StatusCode \<noteq> StatusOK
      \<longrightarrow> fetchNvdDataByCPE env cpe baseNvdAPIURL w =
            (Inl (ErrorfW ''non-retriable error for CPE %s: %w'' [AStr cpe]
                    (ErrorfW ''%w: %d %s'' [AInt StatusCode, AStr Status] ErrNVDAPIStatus)),
             w\<lparr> calls := calls w + (k + 1),
                  slept := slept w @ map calculateRetryDelay [0..<k] \<rparr>)
          \<and> errors_Is
              (ErrorfW ''non-retriable error for CPE %s: %w'' [AStr cpe]
                 (ErrorfW ''%w: %d %s'' [AInt StatusCode, AStr Status] ErrNVDAPIStatus))
              ErrNVDAPIStatus)
   \<and> (\<forall>k Status e.
         NewRequest env (buildURL env cpe baseNvdAPIURL) = None
         \<and> k \<le> maxRetries
         \<and> (\<forall>j<k. replyStatus (Do env (calls w + j) (buildURL env cpe baseNvdAPIURL)) =
                     Some StatusServiceUnavailable)
         \<and> Do env (calls w + k) (buildURL env cpe baseNvdAPIURL) =
             Response StatusOK Status (Inl e)
      \<longrightarrow> fetchNvdDataByCPE env cpe baseNvdAPIURL w =
            (Inl (ErrorfW ''non-retriable error for CPE %s: %w'' [AStr cpe]
                    (ErrorfWW ''%w: %w'' [] ErrNVDDecode (LibError e))),
             w\<lparr> calls := calls w + (k + 1),
                  slept := slept w @ map calculateRetryDelay [0..<k] \<rparr>)
          \<and> errors_Is
              (ErrorfW ''non-retriable error for CPE %s: %w'' [AStr cpe]
                 (ErrorfWW ''%w: %w'' [] ErrNVDDecode (LibError e)))
              ErrNVDDecode
          \<and> errors_Is
              (ErrorfW ''non-retriable error for CPE %s: %w'' [AStr cpe]
                 (ErrorfWW ''%w: %w'' [] ErrNVDDecode (LibError e)))
              (LibError e))
   \<and> (\<forall>e w'. attemptFetch env (buildURL env cpe baseNvdAPIURL) w = (Inl e, w')
      \<longrightarrow> shouldRetry e =
            (NewRequest env (buildURL env cpe baseNvdAPIURL) = None
             \<and> replyStatus (Do env (calls w) (buildURL env cpe baseNvdAPIURL)) =
                 Some StatusServiceUnavailable))"
proof (intro conjI allI impI)
  fix e w'
  assume "attemptFetch env (buildURL env cpe baseNvdAPIURL) w = (Inl e, w')"
  then show "shouldRetry e =
            (NewRequest env (buildURL env cpe baseNvdAPIURL) = None
             \<and> replyStatus (Do env (calls w) (buildURL env cpe baseNvdAPIURL)) =
                 Some StatusServiceUnavailable)"
    by (cases "Do env (calls w) (buildURL env cpe baseNvdAPIURL)")
       (auto simp: attemptFetch_def Let_def shouldRetry_def
             split: option.splits sum.splits if_splits)
next
  fix k e
  let ?u = "buildURL env cpe baseNvdAPIURL"
  let ?w = "w\<lparr> calls := calls w + k, slept := slept w @ map calculateRetryDelay [0..<k] \<rparr>"
  assume a: "NewRequest env ?u = None \<and> k \<le> maxRetries
         \<and> (\<forall>j<k. replyStatus (Do env (calls w + j) ?u) = Some StatusServiceUnavailable)
         \<and> Do env (calls w + k) ?u = TransportError e"
  then have "attemptFetch env ?u ?w =
      (Inl (ErrorfW ''failed NVD API request: %w'' [] (LibError e)),
       w\<lparr> calls := calls w + (k + 1), slept := slept w @ map calculateRetryDelay [0..<k] \<rparr>)"
    by (simp add: attemptFetch_def Let_def)
  then show "fetchNvdDataByCPE env cpe baseNvdAPIURL w =
            (Inl (ErrorfW ''non-retriable error for CPE %s: %w'' [AStr cpe]
                    (ErrorfW ''failed NVD API request: %w'' [] (LibError e))),
             w\<lparr> calls := calls w + (k + 1),
                  slept := slept w @ map calculateRetryDelay [0..<k] \<rparr>)"
    using a by (intro fetch_after_503s [where k = k]) (simp_all add: shouldRetry_def)
next
  fix k StatusCode Status body
  let ?u = "buildURL env cpe baseNvdAPIURL"
  let ?w = "w\<lparr> calls := calls w + k, slept := slept w @ map calculateRetryDelay [0..<k] \<rparr>"
  assume a: "NewRequest env ?u = None \<and> k \<le> maxRetries
         \<and> (\<forall>j<k. replyStatus (Do env (calls w + j) ?u) = Some StatusServiceUnavailable)
         \<and> Do env (calls w + k) ?u = Response StatusCode Status body
         \<and> StatusCode \<noteq> StatusServiceUnavailable \<and> StatusCode \<noteq> StatusOK"
  then have "attemptFetch env ?u ?w =
      (Inl (ErrorfW ''%w: %d %s'' [AInt StatusCode, AStr Status] ErrNVDAPIStatus),
       w\<lparr> calls := calls w + (k + 1), slept := slept w @ map calculateRetryDelay [0..<k] \<rparr>)"
    by (simp add: attemptFetch_def Let_def)
  then show "fetchNvdDataByCPE env cpe baseNvdAPIURL w =
            (Inl (ErrorfW ''non-retriable error for CPE %s: %w'' [AStr cpe]
                    (ErrorfW ''%w: %d %s'' [AInt StatusCode, AStr Status] ErrNVDAPIStatus)),
             w\<lparr> calls := calls w + (k + 1),
                  slept := slept w @ map calculateRetryDelay [0..<k] \<rparr>)"
    using a by (intro fetch_after_503s [where k = k]) (simp_all add: shouldRetry_def)
next
  fix k Status e
  let ?u = "buildURL env cpe baseNvdAPIURL"
  let ?w = "w\<lparr> calls := calls w + k, slept := slept w @ map calculateRetryDelay [0..<k] \<rparr>"
  assume a: "NewRequest env ?u = None \<and> k \<le> maxRetries
         \<and> (\<forall>j<k. replyStatus (Do env (calls w + j) ?u) = Some StatusServiceUnavailable)
         \<and> Do env (calls w + k) ?u = Response StatusOK Status (Inl e)"
  then have "attemptFetch env ?u ?w =
      (Inl (ErrorfWW ''%w: %w'' [] ErrNVDDecode (LibError e)),
       w\<lparr> calls := calls w + (k + 1), slept := slept w @ map calculateRetryDelay [0..<k] \<rparr>)"
    by (simp add: attemptFetch_def Let_def StatusOK_def StatusServiceUnavailable_def)
  then show "fetchNvdDataByCPE env cpe baseNvdAPIURL w =
            (Inl (ErrorfW ''non-retriable error for CPE %s: %w'' [AStr cpe]
                    (ErrorfWW ''%w: %w'' [] ErrNVDDecode (LibError e))),
             w\<lparr> calls := calls w + (k + 1),
                  slept := slept w @ map calculateRetryDelay [0..<k] \<rparr>)"
    using a by (intro fetch_after_503s [where k = k]) (simp_all add: shouldRetry_def)
qed simp_all

theorem fetch_non_retriable_witness:
  "fetchNvdDataByCPE (replies [TransportError ''connection refused''])
     ''cpe:2.3:a:b:c:d:*:*:*:*:*:*:*'' ''http://127.0.0.1:8080'' world0 =
     (Inl (ErrorfW ''non-retriable error for CPE %s: %w'' [AStr ''cpe:2.3:a:b:c:d:*:*:*:*:*:*:*'']
             (ErrorfW ''failed NVD API request: %w'' [] (LibError ''connection refused''))),
      \<lparr> calls = 1, slept = [] \<rparr>)
   \<and> fetchNvdDataByCPE
       (replies [Response 503 ''503 Service Unavailable'' (Inl ''invalid character''),
                 Response 404 ''404 Not Found'' (Inl ''unexpected end'')])
       ''cpe:2.3:a:b:c:d:*:*:*:*:*:*:*'' ''http://127.0.0.1:8080'' world0 =
       (Inl (ErrorfW ''non-retriable error for CPE %s: %w''
               [AStr ''cpe:2.3:a:b:c:d:*:*:*:*:*:*:*'']
               (ErrorfW ''%w: %d %s'' [AInt 404, AStr ''404 Not Found''] ErrNVDAPIStatus)),
        \<lparr> calls = 2, slept = [6 * Second] \<rparr>)
   \<and> fetchNvdDataByCPE (replies [Response 200 ''200 OK'' (Inl ''unexpected end'')])
       ''cpe:2.3:a:b:c:d:*:*:*:*:*:*:*'' ''http://127.0.0.1:8080'' world0 =
       (Inl (ErrorfW ''non-retriable error for CPE %s: %w''
               [AStr ''cpe:2.3:a:b:c:d:*:*:*:*:*:*:*'']
               (ErrorfWW ''%w: %w'' [] ErrNVDDecode (LibError ''unexpected end''))),
        \<lparr> calls = 1, slept = [] \<rparr>)
   \<and> shouldRetry ErrNVDServiceUnavailable
   \<and> \<not> shouldRetry (ErrorfW ''%w: %d %s'' [AInt 404, AStr ''404 Not Found''] ErrNVDAPIStatus)"
proof -
  let ?cpe = "''cpe:2.3:a:b:c:d:*:*:*:*:*:*:*''"
  let ?base = "''http://127.0.0.1:8080''"
  note c2 = conjunct2
  have "fetchNvdDataByCPE (replies [TransportError ''connection refused'']) ?cpe ?base world0 =
     (Inl (ErrorfW ''non-retriable error for CPE %s: %w'' [AStr ?cpe]
             (ErrorfW ''failed NVD API request: %w'' [] (LibError ''connection refused''))),
      \<lparr> calls = 1, slept = [] \<rparr>)"
    using fetch_non_retriable
      [of "replies [TransportError ''connection refused'']" ?cpe ?base world0,
       THEN conjunct1, rule_format, of 0 "''connection refused''"]
    by (simp add: replies_def world0_def)
  moreover
  have "fetchNvdDataByCPE
          (replies [Response 503 ''503 Service Unavailable'' (Inl ''invalid character''),
                    Response 404 ''404 Not Found'' (Inl ''unexpected end'')])
          ?cpe ?base world0 =
       (Inl (ErrorfW ''non-retriable error for CPE %s: %w'' [AStr ?cpe]
               (ErrorfW ''%w: %d %s'' [AInt 404, AStr ''404 Not Found''] ErrNVDAPIStatus)),
        \<lparr> calls = 2, slept = [6 * Second] \<rparr>)"
    using fetch_non_retriable
      [of "replies [Response 503 ''503 Service Unavailable'' (Inl ''invalid character''),
                    Response 404 ''404 Not Found'' (Inl ''unexpected end'')]"
          ?cpe ?base world0,
       THEN c2, THEN conjunct1, rule_format,
       of 1 404 "''404 Not Found''" "Inl ''unexpected end''"]
    by (simp add: replies_def world0_def StatusOK_def StatusServiceUnavailable_def
        maxRetries_def calculateRetryDelay_def initialRetryDelay_def Second_def Let_def)
  moreover
  have "fetchNvdDataByCPE (replies [Response 200 ''200 OK'' (Inl ''unexpected end'')])
          ?cpe ?base world0 =
       (Inl (ErrorfW ''non-retriable error for CPE %s: %w'' [AStr ?cpe]
               (ErrorfWW ''%w: %w'' [] ErrNVDDecode (LibError ''unexpected end''))),
        \<lparr> calls = 1, slept = [] \<rparr>)"
    using fetch_non_retriable
      [of "replies [Response 200 ''200 OK'' (Inl ''unexpected end'')]" ?cpe ?base world0,
       THEN c2, THEN c2, THEN conjunct1, rule_format,
       of 0 "''200 OK''" "''unexpected end''"]
    by (simp add: replies_def world0_def StatusOK_def)
  moreover
  have "shouldRetry ErrNVDServiceUnavailable"
    using fetch_non_retriable
      [of "replies [Response 503 ''503 Service Unavailable'' (Inl ''unexpected end'')]"
          ?cpe ?base world0,
       THEN c2, THEN c2, THEN c2, rule_format,
       of ErrNVDServiceUnavailable "\<lparr> calls = 1, slept = [] \<rparr>"]
    by (simp add: replies_def world0_def attemptFetch_def StatusServiceUnavailable_def)
  moreover
  have "\<not> shouldRetry (ErrorfW ''%w: %d %s'' [AInt 404, AStr ''404 Not Found''] ErrNVDAPIStatus)"
    using fetch_non_retriable
      [of "replies [Response 404 ''404 Not Found'' (Inl ''unexpected end'')]" ?cpe ?base world0,
       THEN c2, THEN c2, THEN c2, rule_format,
       of "ErrorfW ''%w: %d %s'' [AInt 404, AStr ''404 Not Found''] ErrNVDAPIStatus"
          "\<lparr> calls = 1, slept = [] \<rparr>"]
    by (simp add: replies_def world0_def attemptFetch_def StatusServiceUnavailable_def
        StatusOK_def)
  ultimately show ?thesis by blast
qed

section \<open>Vendor comments and enrichment\<close>

lemma digitVal_bounds: "digitChar c \<Longrightarrow> 0 \<le> digitVal c \<and> digitVal c \<le> 9"
  by (auto simp: digitChar_def digitVal_def)

lemma digit_not_sign: "digitChar c \<Longrightarrow> c \<noteq> CHR ''-'' \<and> c \<noteq> CHR ''+''"
  by (auto simp: digitChar_def)

lemma getFraction_Nil: "getFraction [] = Some (0, [])"
  by (simp add: getFraction_def)

lemma leadingInt_digits:
  "list_all digitChar s \<Longrightarrow> 0 \<le> x \<Longrightarrow> \<exists>q. leadingInt s x = (q, []) \<and> 0 \<le> q"
proof (induction s arbitrary: x)
  case Nil
  then show ?case by simp
next
  case (Cons c s)
  then have "0 \<le> x * 10 + digitVal c" using digitVal_bounds [of c] by simp
  with Cons show ?case by simp
qed

lemma atoi_digits: "list_all digitChar s \<Longrightarrow> \<exists>q. atoi s = Some q \<and> 0 \<le> q"
proof (cases s)
  case Nil
  then show ?thesis by (simp add: atoi_def)
next
  case (Cons c s')
  assume a: "list_all digitChar s"
  with Cons have "digitChar c" by simp
  then have ns: "c \<noteq> CHR ''-''" "c \<noteq> CHR ''+''" using digit_not_sign by blast+
  obtain q where "leadingInt s 0 = (q, [])" "0 \<le> q"
    using leadingInt_digits [OF a, of 0] by auto
  with Cons ns show ?thesis by (simp add: atoi_def)
qed

lemma getFraction_digits:
  assumes "commaOrPeriod sep" and "ds \<noteq> []" and "list_all digitChar ds"
  shows "\<exists>nsec. getFraction (sep # ds) = Some (nsec, [])"
proof -
  obtain c cs where ds: "ds = c # cs" using assms(2) by (cases ds) auto
  with assms(3) have c: "digitChar c" and cs: "list_all digitChar cs" by simp_all
  have tw: "takeWhile digitChar cs = cs"
    using cs by (simp add: list_all_iff)
  have n: "2 + length (takeWhile digitChar (drop 2 (sep # ds))) = Suc (length ds)"
    by (simp add: ds tw)
  let ?k = "if Suc (length ds) > 10 then 10 else Suc (length ds)"
  let ?v1 = "if Suc (length ds) > 10 then take 10 (sep # ds) else sep # ds"
  have "list_all digitChar (take (?k - 1) (drop 1 ?v1))"
    using assms(3) by (auto simp: list_all_iff dest: in_set_takeD)
  then obtain q where q: "atoi (take (?k - 1) (drop 1 ?v1)) = Some q" "0 \<le> q"
    using atoi_digits by blast
  have pn: "parseNanoseconds (sep # ds) (Suc (length ds)) = Some (q * 10 ^ (10 - ?k))"
    using assms(1) q unfolding parseNanoseconds_def Let_def by simp
  have cond: "length (sep # ds) \<ge> 2 \<and> commaOrPeriod ((sep # ds) ! 0) \<and> isDigit (sep # ds) 1"
    using assms(1) c by (simp add: ds isDigit_def)
  show ?thesis
    unfolding getFraction_def Let_def n using cond pn by simp
qed

lemma time_Parse_seconds_prefix:
  assumes "strictPattern [y1, y2, y3, y4, a, m1, m2, b, d1, d2, t, h1, h2, c, n1, n2, d, s1, s2]"
  shows "time_Parse_seconds
           ([y1, y2, y3, y4, a, m1, m2, b, d1, d2, t, h1, h2, c, n1, n2, d, s1, s2] @ rest) =
         (let year = ((digitVal y1 * 10 + digitVal y2) * 10 + digitVal y3) * 10 + digitVal y4;
              month = digitVal m1 * 10 + digitVal m2;
              day = digitVal d1 * 10 + digitVal d2;
              hour = digitVal h1 * 10 + digitVal h2;
              minute = digitVal n1 * 10 + digitVal n2;
              sec = digitVal s1 * 10 + digitVal s2
          in if 1 \<le> month \<and> month \<le> 12 \<and> hour < 24 \<and> minute < 60 \<and> sec < 60
             then (case getFraction rest of
                     None \<Rightarrow> None
                   | Some (nsec, left) \<Rightarrow>
                       if left = [] \<and> 1 \<le> day \<and> day \<le> daysIn month year
                       then Some \<lparr> tYear = year, tMonth = month, tDay = day, tHour = hour,
                                   tMin = minute, tSec = sec, tNsec = nsec \<rparr>
                       else None)
             else None)"
proof -
  from assms have dg: "digitChar y1" "digitChar y2" "digitChar y3" "digitChar y4"
    "digitChar m1" "digitChar m2" "digitChar d1" "digitChar d2" "digitChar h1" "digitChar h2"
    "digitChar n1" "digitChar n2" "digitChar s1" "digitChar s2"
    and sp: "a = CHR ''-''" "b = CHR ''-''" "t = CHR ''T''" "c = CHR '':''" "d = CHR '':''"
    by simp_all
  have y: "getLongYear
             ([y1, y2, y3, y4, a, m1, m2, b, d1, d2, t, h1, h2, c, n1, n2, d, s1, s2] @ rest) =
           Some (((digitVal y1 * 10 + digitVal y2) * 10 + digitVal y3) * 10 + digitVal y4,
                 [a, m1, m2, b, d1, d2, t, h1, h2, c, n1, n2, d, s1, s2] @ rest)"
    using dg(1-4) digit_not_sign [OF dg(1)]
    by (simp add: getLongYear_def isDigit_def atoi_def)
  have g: "\<And>x1 x2 rest fixed. digitChar x1 \<Longrightarrow> digitChar x2 \<Longrightarrow>
             getnum (x1 # x2 # rest) fixed = Some (digitVal x1 * 10 + digitVal x2, rest)"
    by (simp add: getnum_def isDigit_def)
  note nn = digitVal_bounds [OF dg(5)] digitVal_bounds [OF dg(6)] digitVal_bounds [OF dg(7)]
    digitVal_bounds [OF dg(8)] digitVal_bounds [OF dg(9)] digitVal_bounds [OF dg(10)]
    digitVal_bounds [OF dg(11)] digitVal_bounds [OF dg(12)] digitVal_bounds [OF dg(13)]
    digitVal_bounds [OF dg(14)]
  show ?thesis
    unfolding time_Parse_seconds_def y
    using nn
    by (cases "getFraction rest")
       (auto simp add: sp g dg inRange_def Let_def)
qed

lemma parseVendorComments_loop_eq2:
  "parseVendorComments_loop time_Parse cs acc =
     acc @ map (\<lambda>c. \<lparr> Organization = Organization_dto c, Comment = Comment_dto c,
                       LastModified =
                         the (resultOf (time_Parse ''2006-01-02T15:04:05''
                                          (LastModified_dto c))) \<rparr>)
             (filter (\<lambda>c. resultOf (time_Parse ''2006-01-02T15:04:05'' (LastModified_dto c))
                           \<noteq> None) cs)"
proof (induction cs arbitrary: acc)
  case Nil
  then show ?case by simp
next
  case (Cons c cs)
  show ?case
    by (cases "time_Parse ''2006-01-02T15:04:05'' (LastModified_dto c)")
       (simp_all add: Cons.IH parseNvdVendorCommentDateTime_def)
qed

lemma leadingInt_foldl:
  "list_all digitChar s \<Longrightarrow> leadingInt s x = (foldl (\<lambda>x c. x * 10 + digitVal c) x s, [])"
  by (induction s arbitrary: x) simp_all

lemma leadingInt_rem_Nil:
  "leadingInt s x = (q, []) \<Longrightarrow> list_all digitChar s"
  by (induction s arbitrary: x) (auto split: if_splits)

lemma atoi_digits_decimal: "list_all digitChar s \<Longrightarrow> atoi s = Some (decimal s)"
proof (cases s)
  case Nil
  then show ?thesis by (simp add: atoi_def decimal_def)
next
  case (Cons c s')
  assume a: "list_all digitChar s"
  with Cons have "digitChar c" by simp
  then have ns: "c \<noteq> CHR ''-''" "c \<noteq> CHR ''+''" using digit_not_sign by blast+
  with Cons show ?thesis
    using leadingInt_foldl [OF a, of 0] by (simp add: atoi_def decimal_def)
qed

lemma getLongYear_SomeD:
  assumes "getLongYear v = Some (y, r)"
  shows "\<exists>y1 y2 y3 y4. v = y1 # y2 # y3 # y4 # r \<and> list_all digitChar [y1, y2, y3, y4]
           \<and> y = decimal [y1, y2, y3, y4]"
proof -
  from assms have len: "4 \<le> length v" and d0: "isDigit v 0"
    by (auto simp: getLongYear_def split: if_splits)
  then obtain y1 y2 y3 y4 rest where v: "v = y1 # y2 # y3 # y4 # rest"
    by (cases v rule: list.exhaust; simp)
       (metis (no_types, opaque_lifting) Suc_le_length_iff numeral_3_eq_3 One_nat_def
          Suc_le_mono length_Cons list.size(3) not_less_eq_eq le0 neq_Nil_conv)
  from d0 v have d1: "digitChar y1" by (simp add: isDigit_def)
  then have ns: "y1 \<noteq> CHR ''-''" "y1 \<noteq> CHR ''+''" using digit_not_sign by blast+
  from assms v have at: "atoi [y1, y2, y3, y4] = Some y" and r: "r = rest"
    using len d0 by (auto simp: getLongYear_def)
  from at ns obtain q where "leadingInt [y1, y2, y3, y4] 0 = (q, [])"
    by (auto simp: atoi_def split: prod.splits if_splits)
  then have dg: "list_all digitChar [y1, y2, y3, y4]" by (rule leadingInt_rem_Nil)
  with at have "y = decimal [y1, y2, y3, y4]" by (simp add: atoi_digits_decimal)
  with v r dg show ?thesis by blast
qed

lemma skip_SomeD: "skip v [c] = Some r \<Longrightarrow> v = c # r"
  by (cases v) (auto split: if_splits)

lemma getnum_fixed_SomeD:
  "getnum v True = Some (n, r) \<Longrightarrow>
   \<exists>a b. v = a # b # r \<and> digitChar a \<and> digitChar b \<and> n = decimal [a, b]"
  by (cases v; cases "tl v")
     (auto simp: getnum_def isDigit_def decimal_def split: if_splits)

lemma getnum_free_SomeD:
  "getnum v False = Some (n, r) \<Longrightarrow>
   (\<exists>a b. v = a # b # r \<and> digitChar a \<and> digitChar b \<and> n = decimal [a, b])
   \<or> (\<exists>a. v = a # r \<and> digitChar a \<and> \<not> isDigit r 0 \<and> n = decimal [a])"
  by (cases v; cases "tl v")
     (auto simp: getnum_def isDigit_def decimal_def split: if_splits)

lemma inRange_SomeD: "inRange b = Some u \<Longrightarrow> b"
  by (simp add: inRange_def split: if_splits)

lemma takeWhile_all: "length xs \<le> length (takeWhile P xs) \<Longrightarrow> list_all P xs"
  by (induction xs) (auto split: if_splits)

lemma getFraction_SomeD:
  assumes "getFraction v = Some (n, [])"
  shows "v = [] \<or> (\<exists>sep ds. v = sep # ds \<and> commaOrPeriod sep \<and> ds \<noteq> []
                      \<and> list_all digitChar ds)"
proof (cases "length v \<ge> 2 \<and> commaOrPeriod (v ! 0) \<and> isDigit v 1")
  case False
  have "getFraction v = Some (0, v)"
    by (simp only: getFraction_def if_not_P [OF False])
  with assms show ?thesis by simp
next
  case True
  then obtain sep c cs where v: "v = sep # c # cs"
    by (cases v; cases "tl v") auto
  with True have sp: "commaOrPeriod sep" and dc: "digitChar c" by (simp_all add: isDigit_def)
  from assms True have "drop (2 + length (takeWhile digitChar (drop 2 v))) v = []"
    by (auto simp: getFraction_def Let_def)
  then have "length cs \<le> length (takeWhile digitChar cs)" by (simp add: v)
  then have "list_all digitChar cs" by (rule takeWhile_all)
  with v sp dc show ?thesis by auto
qed

lemma time_Parse_seconds_SomeD:
  assumes "time_Parse_seconds s = Some tm"
  shows "\<exists>y1 y2 y3 y4 m1 m2 d1 d2 hh n1 n2 s1 s2 fsec.
           s = [y1, y2, y3, y4, CHR ''-'', m1, m2, CHR ''-'', d1, d2, CHR ''T''] @ hh
               @ [CHR '':'', n1, n2, CHR '':'', s1, s2] @ fsec
           \<and> list_all digitChar [y1, y2, y3, y4, m1, m2, d1, d2, n1, n2, s1, s2]
           \<and> hh \<noteq> [] \<and> length hh \<le> 2 \<and> list_all digitChar hh
           \<and> (fsec = [] \<or> (\<exists>sep ds. fsec = sep # ds \<and> commaOrPeriod sep \<and> ds \<noteq> []
                                \<and> list_all digitChar ds))
           \<and> 1 \<le> decimal [m1, m2] \<and> decimal [m1, m2] \<le> 12
           \<and> 1 \<le> decimal [d1, d2]
           \<and> decimal [d1, d2] \<le> daysIn (decimal [m1, m2]) (decimal [y1, y2, y3, y4])
           \<and> decimal hh < 24 \<and> decimal [n1, n2] < 60 \<and> decimal [s1, s2] < 60"
proof -
  from assms obtain year v1 v2 month v3 v4 day v5 v6 hour v7 v8 minute v9 v10 sec v11 nsec v12
    where st: "getLongYear s = Some (year, v1)" "skip v1 ''-'' = Some v2"
      "getnum v2 True = Some (month, v3)" "skip v3 ''-'' = Some v4"
      "getnum v4 True = Some (day, v5)" "skip v5 ''T'' = Some v6"
      "getnum v6 False = Some (hour, v7)" "skip v7 '':'' = Some v8"
      "getnum v8 True = Some (minute, v9)" "skip v9 '':'' = Some v10"
      "getnum v10 True = Some (sec, v11)" "getFraction v11 = Some (nsec, v12)"
    and rg: "\<not> (month \<le> 0 \<or> 12 < month)" "\<not> (hour < 0 \<or> 24 \<le> hour)"
      "\<not> (minute < 0 \<or> 60 \<le> minute)" "\<not> (sec < 0 \<or> 60 \<le> sec)"
      "length v12 = 0" "\<not> (day < 1 \<or> day > daysIn month year)"
    unfolding time_Parse_seconds_def
    by (auto simp: bind_eq_Some_conv dest!: inRange_SomeD)
  from getLongYear_SomeD [OF st(1)] obtain y1 y2 y3 y4
    where a1: "s = y1 # y2 # y3 # y4 # v1" "list_all digitChar [y1, y2, y3, y4]"
      "year = decimal [y1, y2, y3, y4]" by blast
  from skip_SomeD [OF st(2)] have a2: "v1 = CHR ''-'' # v2" .
  from getnum_fixed_SomeD [OF st(3)] obtain m1 m2
    where a3: "v2 = m1 # m2 # v3" "digitChar m1" "digitChar m2" "month = decimal [m1, m2]"
    by blast
  from skip_SomeD [OF st(4)] have a4: "v3 = CHR ''-'' # v4" .
  from getnum_fixed_SomeD [OF st(5)] obtain d1 d2
    where a5: "v4 = d1 # d2 # v5" "digitChar d1" "digitChar d2" "day = decimal [d1, d2]"
    by blast
  from skip_SomeD [OF st(6)] have a6: "v5 = CHR ''T'' # v6" .
  from getnum_free_SomeD [OF st(7)] obtain hh
    where a7: "v6 = hh @ v7" "hh \<noteq> []" "length hh \<le> 2" "list_all digitChar hh"
      "hour = decimal hh"
    by (elim disjE exE conjE) (fastforce, fastforce)
  from skip_SomeD [OF st(8)] have a8: "v7 = CHR '':'' # v8" .
  from getnum_fixed_SomeD [OF st(9)] obtain n1 n2
    where a9: "v8 = n1 # n2 # v9" "digitChar n1" "digitChar n2" "minute = decimal [n1, n2]"
    by blast
  from skip_SomeD [OF st(10)] have a10: "v9 = CHR '':'' # v10" .
  from getnum_fixed_SomeD [OF st(11)] obtain s1 s2
    where a11: "v10 = s1 # s2 # v11" "digitChar s1" "digitChar s2" "sec = decimal [s1, s2]"
    by blast
  from st(12) rg(5) have "getFraction v11 = Some (nsec, [])" by simp
  from getFraction_SomeD [OF this]
  have a12: "v11 = [] \<or> (\<exists>sep ds. v11 = sep # ds \<and> commaOrPeriod sep \<and> ds \<noteq> []
                             \<and> list_all digitChar ds)" .
  have shape: "s = [y1, y2, y3, y4, CHR ''-'', m1, m2, CHR ''-'', d1, d2, CHR ''T''] @ hh
               @ [CHR '':'', n1, n2, CHR '':'', s1, s2] @ v11"
    by (simp add: a1(1) a2 a3(1) a4 a5(1) a6 a7(1) a8 a9(1) a10 a11(1))
  have dgs: "list_all digitChar [y1, y2, y3, y4, m1, m2, d1, d2, n1, n2, s1, s2]"
    using a1(2) a3(2,3) a5(2,3) a9(2,3) a11(2,3) by simp
  have nn: "0 \<le> decimal [d1, d2]"
    using digitVal_bounds [OF a5(2)] digitVal_bounds [OF a5(3)] by (simp add: decimal_def)
  have rgs: "1 \<le> decimal [m1, m2] \<and> decimal [m1, m2] \<le> 12
           \<and> 1 \<le> decimal [d1, d2]
           \<and> decimal [d1, d2] \<le> daysIn (decimal [m1, m2]) (decimal [y1, y2, y3, y4])
           \<and> decimal hh < 24 \<and> decimal [n1, n2] < 60 \<and> decimal [s1, s2] < 60"
    using rg a1(3) a3(4) a5(4) a7(5) a9(4) a11(4) by auto
  show ?thesis
    using shape dgs a7(2,3,4) a12 rgs by blast
qed

lemma getFraction_value:
  assumes "commaOrPeriod sep" and "ds \<noteq> []" and "list_all digitChar ds"
  shows "getFraction (sep # ds) =
         Some (decimal (take 9 ds) * 10 ^ (9 - min 9 (length ds)), [])"
proof -
  obtain c cs where ds: "ds = c # cs" using assms(2) by (cases ds) auto
  with assms(3) have c: "digitChar c" and cs: "list_all digitChar cs" by simp_all
  have tw: "takeWhile digitChar cs = cs"
    using cs by (simp add: list_all_iff)
  have n: "2 + length (takeWhile digitChar (drop 2 (sep # ds))) = Suc (length ds)"
    by (simp add: ds tw)
  have cond: "length (sep # ds) \<ge> 2 \<and> commaOrPeriod ((sep # ds) ! 0) \<and> isDigit (sep # ds) 1"
    using assms(1) c by (simp add: ds isDigit_def)
  have d9: "list_all digitChar (take 9 ds)"
    using assms(3) by (auto simp: list_all_iff dest: in_set_takeD)
  have pn: "parseNanoseconds (sep # ds) (Suc (length ds)) =
            Some (decimal (take 9 ds) * 10 ^ (9 - min 9 (length ds)))"
  proof (cases "Suc (length ds) > 10")
    case True
    then have m: "min 9 (length ds) = 9" by simp
    have "0 \<le> decimal (take 9 ds)"
      using atoi_digits [OF d9] atoi_digits_decimal [OF d9] by simp
    with True assms(1) show ?thesis
      unfolding parseNanoseconds_def Let_def
      by (simp add: atoi_digits_decimal [OF d9] m)
  next
    case False
    then have m: "min 9 (length ds) = length ds" "take 9 ds = ds" by simp_all
    have "0 \<le> decimal ds"
      using atoi_digits [OF assms(3)] atoi_digits_decimal [OF assms(3)] by simp
    with False assms(1) show ?thesis
      unfolding parseNanoseconds_def Let_def
      by (simp add: atoi_digits_decimal [OF assms(3)] m)
  qed
  show ?thesis
    unfolding getFraction_def Let_def n using cond pn by simp
qed

lemma getLongYear_digits:
  "list_all digitChar [y1, y2, y3, y4] \<Longrightarrow>
   getLongYear (y1 # y2 # y3 # y4 # r) = Some (decimal [y1, y2, y3, y4], r)"
  using atoi_digits_decimal [of "[y1, y2, y3, y4]"]
  by (simp add: getLongYear_def isDigit_def)

lemma getnum_two:
  "digitChar a \<Longrightarrow> digitChar b \<Longrightarrow> getnum (a # b # r) fixed = Some (decimal [a, b], r)"
  by (simp add: getnum_def isDigit_def decimal_def)

lemma getnum_one:
  "digitChar a \<Longrightarrow> getnum (a # CHR '':'' # r) False = Some (decimal [a], CHR '':'' # r)"
  by (simp add: getnum_def isDigit_def decimal_def digitChar_def)

lemma decimal_nonneg: "list_all digitChar s \<Longrightarrow> 0 \<le> decimal s"
  using atoi_digits [of s] atoi_digits_decimal [of s] by simp

lemma time_Parse_seconds_accepts:
  assumes dg: "list_all digitChar [y1, y2, y3, y4, m1, m2, d1, d2, n1, n2, s1, s2]"
    and hh: "hh \<noteq> []" "length hh \<le> 2" "list_all digitChar hh"
    and fr: "fsec = [] \<or> (\<exists>sep ds. fsec = sep # ds \<and> commaOrPeriod sep \<and> ds \<noteq> []
                                \<and> list_all digitChar ds)"
    and rg: "1 \<le> decimal [m1, m2]" "decimal [m1, m2] \<le> 12" "1 \<le> decimal [d1, d2]"
      "decimal [d1, d2] \<le> daysIn (decimal [m1, m2]) (decimal [y1, y2, y3, y4])"
      "decimal hh < 24" "decimal [n1, n2] < 60" "decimal [s1, s2] < 60"
  shows "time_Parse_seconds
           ([y1, y2, y3, y4, CHR ''-'', m1, m2, CHR ''-'', d1, d2, CHR ''T''] @ hh
            @ [CHR '':'', n1, n2, CHR '':'', s1, s2] @ fsec) =
         Some \<lparr> tYear = decimal [y1, y2, y3, y4], tMonth = decimal [m1, m2],
                tDay = decimal [d1, d2], tHour = decimal hh, tMin = decimal [n1, n2],
                tSec = decimal [s1, s2],
                tNsec = (if fsec = [] then 0
                         else decimal (take 9 (tl fsec))
                              * 10 ^ (9 - min 9 (length (tl fsec)))) \<rparr>"
proof -
  from dg have y: "list_all digitChar [y1, y2, y3, y4]" and
    d: "digitChar m1" "digitChar m2" "digitChar d1" "digitChar d2"
       "digitChar n1" "digitChar n2" "digitChar s1" "digitChar s2" by simp_all
  have f: "getFraction fsec =
           Some (if fsec = [] then 0
                 else decimal (take 9 (tl fsec)) * 10 ^ (9 - min 9 (length (tl fsec))), [])"
    using fr by (auto simp: getFraction_Nil getFraction_value)
  have h: "getnum (hh @ CHR '':'' # n1 # n2 # CHR '':'' # s1 # s2 # fsec) False =
           Some (decimal hh, CHR '':'' # n1 # n2 # CHR '':'' # s1 # s2 # fsec)"
  proof (cases hh)
    case Nil
    with hh(1) show ?thesis by simp
  next
    case (Cons h1 t)
    show ?thesis
    proof (cases t)
      case Nil
      with Cons hh(3) show ?thesis by (simp add: getnum_one)
    next
      case (Cons h2 t')
      with \<open>hh = h1 # t\<close> hh(2) have "t' = []" by simp
      with Cons \<open>hh = h1 # t\<close> hh(3) show ?thesis by (simp add: getnum_two)
    qed
  qed
  note nn = decimal_nonneg [OF hh(3)]
    decimal_nonneg [of "[n1, n2]"] decimal_nonneg [of "[s1, s2]"]
  show ?thesis
    unfolding time_Parse_seconds_def
    using rg nn d
    by (simp add: getLongYear_digits [OF y] getnum_two h f inRange_def)
qed

lemma time_Parse_seconds_iff:
  "(time_Parse_seconds s = Some tm) =
   (\<exists>y1 y2 y3 y4 m1 m2 d1 d2 hh n1 n2 s1 s2 fsec.
      s = [y1, y2, y3, y4, CHR ''-'', m1, m2, CHR ''-'', d1, d2, CHR ''T''] @ hh
          @ [CHR '':'', n1, n2, CHR '':'', s1, s2] @ fsec
      \<and> list_all digitChar [y1, y2, y3, y4, m1, m2, d1, d2, n1, n2, s1, s2]
      \<and> hh \<noteq> [] \<and> length hh \<le> 2 \<and> list_all digitChar hh
      \<and> (fsec = [] \<or> (\<exists>sep ds. fsec = sep # ds \<and> commaOrPeriod sep \<and> ds \<noteq> []
                           \<and> list_all digitChar ds))
      \<and> 1 \<le> decimal [m1, m2] \<and> decimal [m1, m2] \<le> 12
      \<and> 1 \<le> decimal [d1, d2]
      \<and> decimal [d1, d2] \<le> daysIn (decimal [m1, m2]) (decimal [y1, y2, y3, y4])
      \<and> decimal hh < 24 \<and> decimal [n1, n2] < 60 \<and> decimal [s1, s2] < 60
      \<and> tm = \<lparr> tYear = decimal [y1, y2, y3, y4], tMonth = decimal [m1, m2],
                tDay = decimal [d1, d2], tHour = decimal hh, tMin = decimal [n1, n2],
                tSec = decimal [s1, s2],
                tNsec = (if fsec = [] then 0
                         else decimal (take 9 (tl fsec))
                              * 10 ^ (9 - min 9 (length (tl fsec)))) \<rparr>)"
  (is "?L = ?R")
proof
  assume L: ?L
  from time_Parse_seconds_SomeD [OF L]
  obtain y1 y2 y3 y4 m1 m2 d1 d2 hh n1 n2 s1 s2 fsec where
    sh: "s = [y1, y2, y3, y4, CHR ''-'', m1, m2, CHR ''-'', d1, d2, CHR ''T''] @ hh
          @ [CHR '':'', n1, n2, CHR '':'', s1, s2] @ fsec"
    and c: "list_all digitChar [y1, y2, y3, y4, m1, m2, d1, d2, n1, n2, s1, s2]"
      "hh \<noteq> []" "length hh \<le> 2" "list_all digitChar hh"
      "fsec = [] \<or> (\<exists>sep ds. fsec = sep # ds \<and> commaOrPeriod sep \<and> ds \<noteq> []
                           \<and> list_all digitChar ds)"
      "1 \<le> decimal [m1, m2]" "decimal [m1, m2] \<le> 12" "1 \<le> decimal [d1, d2]"
      "decimal [d1, d2] \<le> daysIn (decimal [m1, m2]) (decimal [y1, y2, y3, y4])"
      "decimal hh < 24" "decimal [n1, n2] < 60" "decimal [s1, s2] < 60"
    by blast
  from time_Parse_seconds_accepts [OF c] L
  have "tm = \<lparr> tYear = decimal [y1, y2, y3, y4], tMonth = decimal [m1, m2],
                tDay = decimal [d1, d2], tHour = decimal hh, tMin = decimal [n1, n2],
                tSec = decimal [s1, s2],
                tNsec = (if fsec = [] then 0
                         else decimal (take 9 (tl fsec))
                              * 10 ^ (9 - min 9 (length (tl fsec)))) \<rparr>"
    unfolding sh by simp
  with sh c show ?R by blast
next
  assume ?R
  then show ?L using time_Parse_seconds_accepts by blast
qed

text \<open>
  C9, as amended. \<open>parseVendorComments\<close> has no error result. With the library's parser
  for the layout \<open>2006-01-02T15:04:05\<close>, its output is the allocated slice of the
  comments whose timestamp that parser accepts, in their original order, each with the
  organization and the text copied and the parsed time attached; the others are dropped,
  and an empty input gives the allocated empty slice, not nil. A timestamp of the
  pattern \<open>YYYY-MM-DDTHH:MM:SS\<close> is accepted exactly when its fields are a date that
  exists and a time of day. The parser accepts more than that pattern: the same
  timestamp followed by a period or comma and digits is accepted whenever the timestamp
  itself is, with those digits as the fraction of the second. In full, a string parses
  to a time exactly when it is a year of four digits, a month and a day of two digits,
  an hour of one or two digits, a minute and a second of two digits, with the
  separators of the layout between them, then nothing or a period or comma and at least
  one digit, and the month, the day of that month and year, the hour, the minute and
  the second are in range; the time is made of those fields, the fraction counted in
  nanoseconds from its first nine digits.
\<close>

theorem parseVendorComments_accepted:
  "((\<forall>s. resultOf (time_Parse ''2006-01-02T15:04:05'' s) = time_Parse_seconds s) \<longrightarrow>
      parseVendorComments time_Parse nvdComments =
        Slice (map (\<lambda>c. \<lparr> Organization = Organization_dto c, Comment = Comment_dto c,
                           LastModified = the (time_Parse_seconds (LastModified_dto c)) \<rparr>)
                 (filter (\<lambda>c. time_Parse_seconds (LastModified_dto c) \<noteq> None) nvdComments))
      \<and> parseVendorComments time_Parse [] = Slice [])
   \<and> (strictPattern [y1, y2, y3, y4, a, m1, m2, b, d1, d2, t, h1, h2, c, n1, n2, d, s1, s2] \<longrightarrow>
        time_Parse_seconds [y1, y2, y3, y4, a, m1, m2, b, d1, d2, t, h1, h2, c, n1, n2, d, s1, s2] =
          (let year = ((digitVal y1 * 10 + digitVal y2) * 10 + digitVal y3) * 10 + digitVal y4;
               month = digitVal m1 * 10 + digitVal m2;
               day = digitVal d1 * 10 + digitVal d2;
               hour = digitVal h1 * 10 + digitVal h2;
               minute = digitVal n1 * 10 + digitVal n2;
               sec = digitVal s1 * 10 + digitVal s2
           in if 1 \<le> month \<and> month \<le> 12 \<and> 1 \<le> day \<and> day \<le> daysIn month year
                 \<and> hour < 24 \<and> minute < 60 \<and> sec < 60
              then Some \<lparr> tYear = year, tMonth = month, tDay = day, tHour = hour,
                          tMin = minute, tSec = sec, tNsec = 0 \<rparr>
              else None))
   \<and> (strictPattern [y1, y2, y3, y4, a, m1, m2, b, d1, d2, t, h1, h2, c, n1, n2, d, s1, s2]
       \<and> commaOrPeriod sep \<and> ds \<noteq> [] \<and> list_all digitChar ds \<longrightarrow>
        (\<exists>nsec.
           time_Parse_seconds
             ([y1, y2, y3, y4, a, m1, m2, b, d1, d2, t, h1, h2, c, n1, n2, d, s1, s2] @ sep # ds) =
           map_option (\<lambda>tm. tm\<lparr> tNsec := nsec \<rparr>)
             (time_Parse_seconds
                [y1, y2, y3, y4, a, m1, m2, b, d1, d2, t, h1, h2, c, n1, n2, d, s1, s2])))
   \<and> ((time_Parse_seconds s = Some tm) =
       (\<exists>y1 y2 y3 y4 m1 m2 d1 d2 hh n1 n2 s1 s2 fsec.
          s = [y1, y2, y3, y4, CHR ''-'', m1, m2, CHR ''-'', d1, d2, CHR ''T''] @ hh
              @ [CHR '':'', n1, n2, CHR '':'', s1, s2] @ fsec
          \<and> list_all digitChar [y1, y2, y3, y4, m1, m2, d1, d2, n1, n2, s1, s2]
          \<and> hh \<noteq> [] \<and> length hh \<le> 2 \<and> list_all digitChar hh
          \<and> (fsec = [] \<or> (\<exists>sep ds. fsec = sep # ds \<and> commaOrPeriod sep \<and> ds \<noteq> []
                               \<and> list_all digitChar ds))
          \<and> 1 \<le> decimal [m1, m2] \<and> decimal [m1, m2] \<le> 12
          \<and> 1 \<le> decimal [d1, d2]
          \<and> decimal [d1, d2] \<le> daysIn (decimal [m1, m2]) (decimal [y1, y2, y3, y4])
          \<and> decimal hh < 24 \<and> decimal [n1, n2] < 60 \<and> decimal [s1, s2] < 60
          \<and> tm = \<lparr> tYear = decimal [y1, y2, y3, y4], tMonth = decimal [m1, m2],
                    tDay = decimal [d1, d2], tHour = decimal hh, tMin = decimal [n1, n2],
                    tSec = decimal [s1, s2],
                    tNsec = (if fsec = [] then 0
                             else decimal (take 9 (tl fsec))
                                  * 10 ^ (9 - min 9 (length (tl fsec)))) \<rparr>))"
proof (intro conjI impI)
  assume H: "\<forall>s. resultOf (time_Parse ''2006-01-02T15:04:05'' s) = time_Parse_seconds s"
  show "parseVendorComments time_Parse nvdComments =
        Slice (map (\<lambda>c. \<lparr> Organization = Organization_dto c, Comment = Comment_dto c,
                           LastModified = the (time_Parse_seconds (LastModified_dto c)) \<rparr>)
                 (filter (\<lambda>c. time_Parse_seconds (LastModified_dto c) \<noteq> None) nvdComments))"
    by (simp add: parseVendorComments_def parseVendorComments_loop_eq2 H)
  show "parseVendorComments time_Parse [] = Slice []"
    by (simp add: parseVendorComments_def)
next
  assume "strictPattern [y1, y2, y3, y4, a, m1, m2, b, d1, d2, t, h1, h2, c, n1, n2, d, s1, s2]"
  from time_Parse_seconds_prefix [OF this, of "[]"]
  show "time_Parse_seconds [y1, y2, y3, y4, a, m1, m2, b, d1, d2, t, h1, h2, c, n1, n2, d, s1, s2] =
          (let year = ((digitVal y1 * 10 + digitVal y2) * 10 + digitVal y3) * 10 + digitVal y4;
               month = digitVal m1 * 10 + digitVal m2;
               day = digitVal d1 * 10 + digitVal d2;
               hour = digitVal h1 * 10 + digitVal h2;
               minute = digitVal n1 * 10 + digitVal n2;
               sec = digitVal s1 * 10 + digitVal s2
           in if 1 \<le> month \<and> month \<le> 12 \<and> 1 \<le> day \<and> day \<le> daysIn month year
                 \<and> hour < 24 \<and> minute < 60 \<and> sec < 60
              then Some \<lparr> tYear = year, tMonth = month, tDay = day, tHour = hour,
                          tMin = minute, tSec = sec, tNsec = 0 \<rparr>
              else None)"
    by (simp add: getFraction_Nil Let_def)
next
  assume A: "strictPattern [y1, y2, y3, y4, a, m1, m2, b, d1, d2, t, h1, h2, c, n1, n2, d, s1, s2]
       \<and> commaOrPeriod sep \<and> ds \<noteq> [] \<and> list_all digitChar ds"
  then obtain nsec where f: "getFraction (sep # ds) = Some (nsec, [])"
    using getFraction_digits by blast
  from A have sp: "strictPattern
      [y1, y2, y3, y4, a, m1, m2, b, d1, d2, t, h1, h2, c, n1, n2, d, s1, s2]" by simp
  have "time_Parse_seconds
             ([y1, y2, y3, y4, a, m1, m2, b, d1, d2, t, h1, h2, c, n1, n2, d, s1, s2] @ sep # ds) =
           map_option (\<lambda>tm. tm\<lparr> tNsec := nsec \<rparr>)
             (time_Parse_seconds
                ([y1, y2, y3, y4, a, m1, m2, b, d1, d2, t, h1, h2, c, n1, n2, d, s1, s2] @ []))"
    unfolding time_Parse_seconds_prefix [OF sp]
    by (simp add: f getFraction_Nil Let_def)
  then show "\<exists>nsec.
           time_Parse_seconds
             ([y1, y2, y3, y4, a, m1, m2, b, d1, d2, t, h1, h2, c, n1, n2, d, s1, s2] @ sep # ds) =
           map_option (\<lambda>tm. tm\<lparr> tNsec := nsec \<rparr>)
             (time_Parse_seconds
                [y1, y2, y3, y4, a, m1, m2, b, d1, d2, t, h1, h2, c, n1, n2, d, s1, s2])"
    by auto
next
  show "(time_Parse_seconds s = Some tm) =
       (\<exists>y1 y2 y3 y4 m1 m2 d1 d2 hh n1 n2 s1 s2 fsec.
          s = [y1, y2, y3, y4, CHR ''-'', m1, m2, CHR ''-'', d1, d2, CHR ''T''] @ hh
              @ [CHR '':'', n1, n2, CHR '':'', s1, s2] @ fsec
          \<and> list_all digitChar [y1, y2, y3, y4, m1, m2, d1, d2, n1, n2, s1, s2]
          \<and> hh \<noteq> [] \<and> length hh \<le> 2 \<and> list_all digitChar hh
          \<and> (fsec = [] \<or> (\<exists>sep ds. fsec = sep # ds \<and> commaOrPeriod sep \<and> ds \<noteq> []
                               \<and> list_all digitChar ds))
          \<and> 1 \<le> decimal [m1, m2] \<and> decimal [m1, m2] \<le> 12
          \<and> 1 \<le> decimal [d1, d2]
          \<and> decimal [d1, d2] \<le> daysIn (decimal [m1, m2]) (decimal [y1, y2, y3, y4])
          \<and> decimal hh < 24 \<and> decimal [n1, n2] < 60 \<and> decimal [s1, s2] < 60
          \<and> tm = \<lparr> tYear = decimal [y1, y2, y3, y4], tMonth = decimal [m1, m2],
                    tDay = decimal [d1, d2], tHour = decimal hh, tMin = decimal [n1, n2],
                    tSec = decimal [s1, s2],
                    tNsec = (if fsec = [] then 0
                             else decimal (take 9 (tl fsec))
                                  * 10 ^ (9 - min 9 (length (tl fsec)))) \<rparr>)"
    by (rule time_Parse_seconds_iff)
qed

theorem parseVendorComments_accepted_witness:
  "parseVendorComments time_Parse_vendorLayout (mockComments @ [mockFractionComment]) =
     Slice [\<lparr> Organization = ''Red Hat'', Comment = ''Not vulnerable.'',
               LastModified = \<lparr> tYear = 2008, tMonth = 12, tDay = 18, tHour = 0, tMin = 0,
                                tSec = 0, tNsec = 0 \<rparr> \<rparr>,
            \<lparr> Organization = ''Green Hat'', Comment = ''Fixed.'',
               LastModified = \<lparr> tYear = 2008, tMonth = 12, tDay = 18, tHour = 0, tMin = 0,
                                tSec = 0, tNsec = 0 \<rparr> \<rparr>,
            \<lparr> Organization = ''Red Hat'', Comment = ''Not vulnerable.'',
               LastModified = \<lparr> tYear = 2008, tMonth = 12, tDay = 18, tHour = 0, tMin = 0,
                                tSec = 0, tNsec = 500000000 \<rparr> \<rparr>]
   \<and> time_Parse_seconds ''2008-12-18T00:00:00'' =
       Some \<lparr> tYear = 2008, tMonth = 12, tDay = 18, tHour = 0, tMin = 0, tSec = 0, tNsec = 0 \<rparr>
   \<and> time_Parse_seconds ''2008-02-30T00:00:00'' = None
   \<and> (\<exists>nsec. time_Parse_seconds ''2008-12-18T00:00:00.500'' =
         Some \<lparr> tYear = 2008, tMonth = 12, tDay = 18, tHour = 0, tMin = 0, tSec = 0,
                tNsec = nsec \<rparr>)
   \<and> time_Parse_seconds ''2008-12-18T7:05:09,25'' =
       Some \<lparr> tYear = 2008, tMonth = 12, tDay = 18, tHour = 7, tMin = 5, tSec = 9,
              tNsec = 250000000 \<rparr>"
proof -
  note c2 = conjunct2
  note ev = time_Parse_seconds_def getLongYear_def getnum_def isDigit_def digitChar_def
    digitVal_def atoi_def inRange_def getFraction_def parseNanoseconds_def commaOrPeriod_def
    daysIn_def isLeap_def Let_def
  have h: "\<forall>s. resultOf (time_Parse_vendorLayout ''2006-01-02T15:04:05'' s) =
               time_Parse_seconds s"
    by (simp add: time_Parse_vendorLayout_def split: option.splits)
  have "parseVendorComments time_Parse_vendorLayout (mockComments @ [mockFractionComment]) =
     Slice [\<lparr> Organization = ''Red Hat'', Comment = ''Not vulnerable.'',
               LastModified = \<lparr> tYear = 2008, tMonth = 12, tDay = 18, tHour = 0, tMin = 0,
                                tSec = 0, tNsec = 0 \<rparr> \<rparr>,
            \<lparr> Organization = ''Green Hat'', Comment = ''Fixed.'',
               LastModified = \<lparr> tYear = 2008, tMonth = 12, tDay = 18, tHour = 0, tMin = 0,
                                tSec = 0, tNsec = 0 \<rparr> \<rparr>,
            \<lparr> Organization = ''Red Hat'', Comment = ''Not vulnerable.'',
               LastModified = \<lparr> tYear = 2008, tMonth = 12, tDay = 18, tHour = 0, tMin = 0,
                                tSec = 0, tNsec = 500000000 \<rparr> \<rparr>]"
    using parseVendorComments_accepted
      [of time_Parse_vendorLayout "mockComments @ [mockFractionComment]",
       THEN conjunct1, THEN mp, OF h, THEN conjunct1]
    by (simp add: mockComments_def mockFractionComment_def ev)
  moreover
  have "time_Parse_seconds ''2008-12-18T00:00:00'' =
       Some \<lparr> tYear = 2008, tMonth = 12, tDay = 18, tHour = 0, tMin = 0, tSec = 0, tNsec = 0 \<rparr>"
    using parseVendorComments_accepted
      [of _ _ "CHR ''2''" "CHR ''0''" "CHR ''0''" "CHR ''8''" "CHR ''-''" "CHR ''1''" "CHR ''2''"
          "CHR ''-''" "CHR ''1''" "CHR ''8''" "CHR ''T''" "CHR ''0''" "CHR ''0''" "CHR '':''"
          "CHR ''0''" "CHR ''0''" "CHR '':''" "CHR ''0''" "CHR ''0''",
       THEN c2, THEN conjunct1]
    by (simp add: digitChar_def digitVal_def daysIn_def isLeap_def)
  moreover
  have "time_Parse_seconds ''2008-02-30T00:00:00'' = None"
    using parseVendorComments_accepted
      [of _ _ "CHR ''2''" "CHR ''0''" "CHR ''0''" "CHR ''8''" "CHR ''-''" "CHR ''0''" "CHR ''2''"
          "CHR ''-''" "CHR ''3''" "CHR ''0''" "CHR ''T''" "CHR ''0''" "CHR ''0''" "CHR '':''"
          "CHR ''0''" "CHR ''0''" "CHR '':''" "CHR ''0''" "CHR ''0''",
       THEN c2, THEN conjunct1]
    by (simp add: digitChar_def digitVal_def daysIn_def isLeap_def)
  moreover
  have "\<exists>nsec. time_Parse_seconds ''2008-12-18T00:00:00.500'' =
         Some \<lparr> tYear = 2008, tMonth = 12, tDay = 18, tHour = 0, tMin = 0, tSec = 0,
                tNsec = nsec \<rparr>"
    using parseVendorComments_accepted
      [of _ _ "CHR ''2''" "CHR ''0''" "CHR ''0''" "CHR ''8''" "CHR ''-''" "CHR ''1''" "CHR ''2''"
          "CHR ''-''" "CHR ''1''" "CHR ''8''" "CHR ''T''" "CHR ''0''" "CHR ''0''" "CHR '':''"
          "CHR ''0''" "CHR ''0''" "CHR '':''" "CHR ''0''" "CHR ''0''" "CHR ''.''" "''500''",
       THEN c2, THEN c2, THEN conjunct1]
      parseVendorComments_accepted
      [of _ _ "CHR ''2''" "CHR ''0''" "CHR ''0''" "CHR ''8''" "CHR ''-''" "CHR ''1''" "CHR ''2''"
          "CHR ''-''" "CHR ''1''" "CHR ''8''" "CHR ''T''" "CHR ''0''" "CHR ''0''" "CHR '':''"
          "CHR ''0''" "CHR ''0''" "CHR '':''" "CHR ''0''" "CHR ''0''",
       THEN c2, THEN conjunct1]
    by (simp add: digitChar_def digitVal_def daysIn_def isLeap_def commaOrPeriod_def)
  moreover
  have "time_Parse_seconds ''2008-12-18T7:05:09,25'' =
       Some \<lparr> tYear = 2008, tMonth = 12, tDay = 18, tHour = 7, tMin = 5, tSec = 9,
              tNsec = 250000000 \<rparr>"
    apply (rule parseVendorComments_accepted
             [of _ _ _ _ _ _ _ _ _ _ _ _ _ _ _ _ _ _ _ _ _ _ _ "''2008-12-18T7:05:09,25''",
              THEN c2, THEN c2, THEN c2, THEN iffD2])
    apply (rule exI [of _ "CHR ''2''"], rule exI [of _ "CHR ''0''"], rule exI [of _ "CHR ''0''"],
           rule exI [of _ "CHR ''8''"], rule exI [of _ "CHR ''1''"], rule exI [of _ "CHR ''2''"],
           rule exI [of _ "CHR ''1''"], rule exI [of _ "CHR ''8''"], rule exI [of _ "''7''"],
           rule exI [of _ "CHR ''0''"], rule exI [of _ "CHR ''5''"], rule exI [of _ "CHR ''0''"],
           rule exI [of _ "CHR ''9''"], rule exI [of _ "'',25''"])
    apply (simp add: digitChar_def decimal_def digitVal_def daysIn_def isLeap_def
             commaOrPeriod_def)
    done
  ultimately show ?thesis by blast
qed

text \<open>
  C9 as stated fails: a comment whose timestamp carries a fractional second, which is
  not of the pattern \<open>YYYY-MM-DDTHH:MM:SS\<close>, is kept.
\<close>

theorem parseVendorComments_keeps_fraction:
  "\<not> strictPattern (LastModified_dto mockFractionComment)
   \<and> parseVendorComments time_Parse_vendorLayout [mockFractionComment] =
       Slice [\<lparr> Organization = ''Red Hat'', Comment = ''Not vulnerable.'',
                 LastModified = \<lparr> tYear = 2008, tMonth = 12, tDay = 18, tHour = 0, tMin = 0,
                                  tSec = 0, tNsec = 500000000 \<rparr> \<rparr>]"
  by (simp add: mockFractionComment_def parseVendorComments_def
      parseNvdVendorCommentDateTime_def time_Parse_vendorLayout_def time_Parse_seconds_def
      getLongYear_def getnum_def isDigit_def digitChar_def digitVal_def atoi_def inRange_def
      getFraction_def parseNanoseconds_def commaOrPeriod_def daysIn_def isLeap_def Let_def)

text \<open>
  C1, as amended. \<open>enrichVulnerabilityWithNvdData\<close> returns an error exactly when the
  target is nil or one of the two timestamps does not parse. With a nil target nothing
  is written. When the published timestamp does not parse, the target has already been
  given the identifier, type, description, references and the nine metric fields of the
  source, and its published, last-updated, likelihood, risk-score and vendor-comment
  fields are as before the call. When only the last-modified timestamp does not parse,
  the published field has been written as well.
\<close>

theorem enrich_error_state:
  "enrichVulnerabilityWithNvdData time_Parse MapCVSS CalculateRiskScore None nvdVuln =
     (Some (Errorf ''expected a non-nil vulnerability'' []), None)
   \<and> (\<forall>v e. time_Parse ''2006-01-02T15:04:05.000'' (Published_dto (Cve nvdVuln)) = Inl e \<longrightarrow>
        enrichVulnerabilityWithNvdData time_Parse MapCVSS CalculateRiskScore (Some v) nvdVuln =
          (Some (ErrorfW ''failed to parse publishedTime: %w'' []
                   (ErrorfW ''failed to parse date using custom layout: %w'' [] (LibError e))),
           Some (v\<lparr> ID := ID_dto (Cve nvdVuln),
                    Type := SourceIdentifier (Cve nvdVuln),
                    Description := getEnglishDescription (Descriptions (Cve nvdVuln)),
                    References := getReferences (References_dto (Cve nvdVuln)),
                    BaseCVSSScore :=
                      baseCVSSScore (extractMetrics MapCVSS (Metrics_dto (Cve nvdVuln))),
                    BaseSeverity :=
                      baseSeverity (extractMetrics MapCVSS (Metrics_dto (Cve nvdVuln))),
                    ImpactScore :=
                      impactScore (extractMetrics MapCVSS (Metrics_dto (Cve nvdVuln))),
                    Access := access (extractMetrics MapCVSS (Metrics_dto (Cve nvdVuln))),
                    Complexity :=
                      complexity (extractMetrics MapCVSS (Metrics_dto (Cve nvdVuln))),
                    PrivilegesRequired :=
                      privilegesRequired (extractMetrics MapCVSS (Metrics_dto (Cve nvdVuln))),
                    IntegrityImpact :=
                      integrityImpact (extractMetrics MapCVSS (Metrics_dto (Cve nvdVuln))),
                    AvailabilityImpact :=
                      availabilityImpact (extractMetrics MapCVSS (Metrics_dto (Cve nvdVuln))),
                    Exploit :=
                      exploitability (extractMetrics MapCVSS (Metrics_dto (Cve nvdVuln))) \<rparr>)))
   \<and> (\<forall>v t e. time_Parse ''2006-01-02T15:04:05.000'' (Published_dto (Cve nvdVuln)) = Inr t
             \<and> time_Parse ''2006-01-02T15:04:05.000'' (LastModified_cve (Cve nvdVuln)) = Inl e \<longrightarrow>
        enrichVulnerabilityWithNvdData time_Parse MapCVSS CalculateRiskScore (Some v) nvdVuln =
          (Some (ErrorfW ''failed to parse updatedTime: %w'' []
                   (ErrorfW ''failed to parse date using custom layout: %w'' [] (LibError e))),
           Some (v\<lparr> ID := ID_dto (Cve nvdVuln),
                    Type := SourceIdentifier (Cve nvdVuln),
                    Description := getEnglishDescription (Descriptions (Cve nvdVuln)),
                    References := getReferences (References_dto (Cve nvdVuln)),
                    BaseCVSSScore :=
                      baseCVSSScore (extractMetrics MapCVSS (Metrics_dto (Cve nvdVuln))),
                    BaseSeverity :=
                      baseSeverity (extractMetrics MapCVSS (Metrics_dto (Cve nvdVuln))),
                    ImpactScore :=
                      impactScore (extractMetrics MapCVSS (Metrics_dto (Cve nvdVuln))),
                    Access := access (extractMetrics MapCVSS (Metrics_dto (Cve nvdVuln))),
                    Complexity :=
                      complexity (extractMetrics MapCVSS (Metrics_dto (Cve nvdVuln))),
                    PrivilegesRequired :=
                      privilegesRequired (extractMetrics MapCVSS (Metrics_dto (Cve nvdVuln))),
                    IntegrityImpact :=
                      integrityImpact (extractMetrics MapCVSS (Metrics_dto (Cve nvdVuln))),
                    AvailabilityImpact :=
                      availabilityImpact (extractMetrics MapCVSS (Metrics_dto (Cve nvdVuln))),
                    Exploit :=
                      exploitability (extractMetrics MapCVSS (Metrics_dto (Cve nvdVuln))),
                    Published := t \<rparr>)))
   \<and> ((fst (enrichVulnerabilityWithNvdData time_Parse MapCVSS CalculateRiskScore vuln nvdVuln)
         \<noteq> None) =
       (vuln = None
        \<or> isl (time_Parse ''2006-01-02T15:04:05.000'' (Published_dto (Cve nvdVuln)))
        \<or> isl (time_Parse ''2006-01-02T15:04:05.000'' (LastModified_cve (Cve nvdVuln)))))"
proof (intro conjI allI impI)
  show "enrichVulnerabilityWithNvdData time_Parse MapCVSS CalculateRiskScore None nvdVuln =
     (Some (Errorf ''expected a non-nil vulnerability'' []), None)"
    by (simp add: enrichVulnerabilityWithNvdData_def)
  show "(fst (enrichVulnerabilityWithNvdData time_Parse MapCVSS CalculateRiskScore vuln nvdVuln)
         \<noteq> None) =
       (vuln = None
        \<or> isl (time_Parse ''2006-01-02T15:04:05.000'' (Published_dto (Cve nvdVuln)))
        \<or> isl (time_Parse ''2006-01-02T15:04:05.000'' (LastModified_cve (Cve nvdVuln))))"
    by (cases vuln;
        cases "time_Parse ''2006-01-02T15:04:05.000'' (Published_dto (Cve nvdVuln))";
        cases "time_Parse ''2006-01-02T15:04:05.000'' (LastModified_cve (Cve nvdVuln))")
       (simp_all add: enrichVulnerabilityWithNvdData_def parseNvdDateTime_def Let_def)
qed (simp_all add: enrichVulnerabilityWithNvdData_def parseNvdDateTime_def Let_def)

theorem enrich_error_state_witness:
  "enrichVulnerabilityWithNvdData exampleParse exampleMapCVSS exampleRiskScore
     None mockNvdVulnerabilityWithV31 =
     (Some (Errorf ''expected a non-nil vulnerability'' []), None)
   \<and> enrichVulnerabilityWithNvdData exampleParse exampleMapCVSS exampleRiskScore
       (Some exampleVuln) mockBadPublished =
       (Some (ErrorfW ''failed to parse publishedTime: %w'' []
                (ErrorfW ''failed to parse date using custom layout: %w'' []
                   (LibError ''cannot parse''))),
        Some \<lparr> ID = ''CVE-TEST-V31'', Type = ''TestSource'',
               Description = ''Test Description v3.1'',
               References = Slice [''http://example.com/ref1''],
               BaseCVSSScore = 7.5, BaseSeverity = SeverityTypeHigh, ImpactScore = 5.9,
               Access = AccessTypeNetwork, Complexity = ComplexityTypeLow,
               PrivilegesRequired = PrivilegesRequiredNone, IntegrityImpact = ImpactTypeHigh,
               AvailabilityImpact = ImpactTypeNone,
               Exploit = \<lparr> Score = 3.9, Exploitability = ExploitabilityTypeFunctional \<rparr>,
               Published = 0, LastUpdated = 0, Likelihood = LikelyhoodTypeUnknown,
               RiskScore = 0, VendorComments = NilSlice \<rparr>)
   \<and> enrichVulnerabilityWithNvdData exampleParse exampleMapCVSS exampleRiskScore
       (Some exampleVuln) mockBadLastModified =
       (Some (ErrorfW ''failed to parse updatedTime: %w'' []
                (ErrorfW ''failed to parse date using custom layout: %w'' []
                   (LibError ''cannot parse''))),
        Some \<lparr> ID = ''CVE-TEST-V31'', Type = ''TestSource'',
               Description = ''Test Description v3.1'',
               References = Slice [''http://example.com/ref1''],
               BaseCVSSScore = 7.5, BaseSeverity = SeverityTypeHigh, ImpactScore = 5.9,
               Access = AccessTypeNetwork, Complexity = ComplexityTypeLow,
               PrivilegesRequired = PrivilegesRequiredNone, IntegrityImpact = ImpactTypeHigh,
               AvailabilityImpact = ImpactTypeNone,
               Exploit = \<lparr> Score = 3.9, Exploitability = ExploitabilityTypeFunctional \<rparr>,
               Published = 1732154988, LastUpdated = 0, Likelihood = LikelyhoodTypeUnknown,
               RiskScore = 0, VendorComments = NilSlice \<rparr>)"
proof -
  note c2 = conjunct2
  have "enrichVulnerabilityWithNvdData exampleParse exampleMapCVSS exampleRiskScore
     None mockNvdVulnerabilityWithV31 =
     (Some (Errorf ''expected a non-nil vulnerability'' []), None)"
    using enrich_error_state
      [of exampleParse exampleMapCVSS exampleRiskScore mockNvdVulnerabilityWithV31,
       THEN conjunct1] .
  moreover
  have "enrichVulnerabilityWithNvdData exampleParse exampleMapCVSS exampleRiskScore
       (Some exampleVuln) mockBadPublished =
       (Some (ErrorfW ''failed to parse publishedTime: %w'' []
                (ErrorfW ''failed to parse date using custom layout: %w'' []
                   (LibError ''cannot parse''))),
        Some \<lparr> ID = ''CVE-TEST-V31'', Type = ''TestSource'',
               Description = ''Test Description v3.1'',
               References = Slice [''http://example.com/ref1''],
               BaseCVSSScore = 7.5, BaseSeverity = SeverityTypeHigh, ImpactScore = 5.9,
               Access = AccessTypeNetwork, Complexity = ComplexityTypeLow,
               PrivilegesRequired = PrivilegesRequiredNone, IntegrityImpact = ImpactTypeHigh,
               AvailabilityImpact = ImpactTypeNone,
               Exploit = \<lparr> Score = 3.9, Exploitability = ExploitabilityTypeFunctional \<rparr>,
               Published = 0, LastUpdated = 0, Likelihood = LikelyhoodTypeUnknown,
               RiskScore = 0, VendorComments = NilSlice \<rparr>)"
    using enrich_error_state
      [of exampleParse exampleMapCVSS exampleRiskScore mockBadPublished None,
       THEN c2, THEN conjunct1, rule_format, of "''cannot parse''" exampleVuln]
    by (simp add: mockBadPublished_def mockNvdVulnerabilityWithV31_def exampleParse_def
        exampleVuln_def extractMetrics_def defaultMetrics_def mockV31_def getReferences_def
        append_slice_def)
  moreover
  have "enrichVulnerabilityWithNvdData exampleParse exampleMapCVSS exampleRiskScore
       (Some exampleVuln) mockBadLastModified =
       (Some (ErrorfW ''failed to parse updatedTime: %w'' []
                (ErrorfW ''failed to parse date using custom layout: %w'' []
                   (LibError ''cannot parse''))),
        Some \<lparr> ID = ''CVE-TEST-V31'', Type = ''TestSource'',
               Description = ''Test Description v3.1'',
               References = Slice [''http://example.com/ref1''],
               BaseCVSSScore = 7.5, BaseSeverity = SeverityTypeHigh, ImpactScore = 5.9,
               Access = AccessTypeNetwork, Complexity = ComplexityTypeLow,
               PrivilegesRequired = PrivilegesRequiredNone, IntegrityImpact = ImpactTypeHigh,
               AvailabilityImpact = ImpactTypeNone,
               Exploit = \<lparr> Score = 3.9, Exploitability = ExploitabilityTypeFunctional \<rparr>,
               Published = 1732154988, LastUpdated = 0, Likelihood = LikelyhoodTypeUnknown,
               RiskScore = 0, VendorComments = NilSlice \<rparr>)"
    using enrich_error_state
      [of exampleParse exampleMapCVSS exampleRiskScore mockBadLastModified None,
       THEN c2, THEN c2, THEN conjunct1, rule_format,
       of 1732154988 "''cannot parse''" exampleVuln]
    by (simp add: mockBadLastModified_def mockNvdVulnerabilityWithV31_def exampleParse_def
        exampleVuln_def extractMetrics_def defaultMetrics_def mockV31_def getReferences_def
        append_slice_def)
  ultimately show ?thesis by blast
qed

text \<open>
  C1 as stated fails: with a published timestamp that does not parse, the call returns
  an error and the target is no longer what it was.
\<close>

theorem enrich_not_atomic:
  "fst (enrichVulnerabilityWithNvdData exampleParse exampleMapCVSS exampleRiskScore
          (Some exampleVuln) mockBadPublished) \<noteq> None
   \<and> snd (enrichVulnerabilityWithNvdData exampleParse exampleMapCVSS exampleRiskScore
            (Some exampleVuln) mockBadPublished) \<noteq> Some exampleVuln"
  by (simp add: enrichVulnerabilityWithNvdData_def parseNvdDateTime_def Let_def
      mockBadPublished_def mockNvdVulnerabilityWithV31_def exampleParse_def exampleVuln_def)

section \<open>The package's tests, run on the model\<close>

text \<open>
  The enrichment test with CVSS 3.1 data (with vendor comments added) and the extraction
  of the test's CVSS 2.0 entry give the values the tests expect.
\<close>

lemma enrich_success_example:
  "enrichVulnerabilityWithNvdData exampleParse exampleMapCVSS exampleRiskScore
     (Some exampleVuln)
     (mockNvdVulnerabilityWithV31
        \<lparr> Cve := (Cve mockNvdVulnerabilityWithV31) \<lparr> VendorComments_dto := mockComments \<rparr> \<rparr>) =
     (None,
      Some \<lparr> ID = ''CVE-TEST-V31'', Type = ''TestSource'',
             Description = ''Test Description v3.1'',
             References = Slice [''http://example.com/ref1''],
             BaseCVSSScore = 7.5, BaseSeverity = SeverityTypeHigh, ImpactScore = 5.9,
             Access = AccessTypeNetwork, Complexity = ComplexityTypeLow,
             PrivilegesRequired = PrivilegesRequiredNone, IntegrityImpact = ImpactTypeHigh,
             AvailabilityImpact = ImpactTypeNone,
             Exploit = \<lparr> Score = 3.9, Exploitability = ExploitabilityTypeFunctional \<rparr>,
             Published = 1732154988, LastUpdated = 1732154988,
             Likelihood = LikelyhoodTypeVeryHigh, RiskScore = 9,
             VendorComments =
               Slice [\<lparr> Organization = ''Red Hat'', Comment = ''Not vulnerable.'',
                         LastModified = 1229558400 \<rparr>,
                      \<lparr> Organization = ''Green Hat'', Comment = ''Fixed.'',
                         LastModified = 1229558400 \<rparr>] \<rparr>)"
  by (simp add: enrichVulnerabilityWithNvdData_def parseNvdDateTime_def Let_def
      mockNvdVulnerabilityWithV31_def exampleParse_def exampleVuln_def extractMetrics_def
      defaultMetrics_def mockV31_def getReferences_def append_slice_def
      calculateLikelihoodSimple_def exampleRiskScore_def parseVendorComments_def
      parseNvdVendorCommentDateTime_def mockComments_def)

lemma extractMetrics_v2_example:
  "extractMetrics exampleMapCVSS
     (Some \<lparr> CvssMetricV31 = [], CvssMetricV30 = [], CvssMetricV2 = [mockV2] \<rparr>) =
     \<lparr> baseCVSSScore = 5.0, baseSeverity = SeverityTypeMedium, impactScore = 2.9,
       access = AccessTypeNetwork, complexity = ComplexityTypeLow,
       privilegesRequired = PrivilegesRequiredUnknown, integrityImpact = ImpactTypeNone,
       availabilityImpact = ImpactTypeNone,
       exploitability = \<lparr> Score = 10.0, Exploitability = ExploitabilityTypeUnknown \<rparr> \<rparr>"
  by (simp add: extractMetrics_def defaultMetrics_def mockV2_def exampleMapCVSS_def)

end
